theory Spec2Isabelle
  imports Main "HOL-Library.Sublist"
begin

section \<open>Text helpers of the Python runtime\<close>

text \<open>
  Python strings are sequences of code points. The model works on code points below 256,
  one \<^typ>\<open>char\<close> each; \<open>str.isspace\<close>, \<open>str.strip\<close> and \<open>str.lower\<close> are
  written out for that range.
\<close>

definition py_isspace :: "char \<Rightarrow> bool" where
  "py_isspace c = ((of_char c :: nat) \<in> set [9, 10, 11, 12, 13, 28, 29, 30, 31, 32, 133, 160])"

definition py_strip :: "string \<Rightarrow> string" where
  "py_strip s = rev (dropWhile py_isspace (rev (dropWhile py_isspace s)))"

definition lower_char :: "char \<Rightarrow> char" where
  "lower_char c =
     (let n = (of_char c :: nat)
      in if (65 \<le> n \<and> n \<le> 90) \<or> (192 \<le> n \<and> n \<le> 222 \<and> n \<noteq> 215)
         then char_of (n + 32) else c)"

definition py_lower :: "string \<Rightarrow> string" where
  "py_lower s = map lower_char s"

text \<open>\<open>x or ""\<close> for a value that is a string or \<open>None\<close>.\<close>

definition or_empty :: "string option \<Rightarrow> string" where
  "or_empty x = (case x of None \<Rightarrow> [] | Some s \<Rightarrow> s)"

text \<open>\<open>a or b\<close> for two values that are strings or \<open>None\<close>: the first truthy one, else \<open>b\<close>.\<close>

definition py_or :: "string option \<Rightarrow> string option \<Rightarrow> string option" where
  "py_or a b = (case a of None \<Rightarrow> b | Some s \<Rightarrow> (if s = [] then b else Some s))"

text \<open>\<open>(x or "").strip().lower()\<close>, the key form of every lookup by name.\<close>

definition norm_key :: "string option \<Rightarrow> string" where
  "norm_key x = py_lower (py_strip (or_empty x))"

text \<open>\<open>raw.replace(",", sep)\<close>: every comma becomes a copy of \<open>sep\<close>.\<close>

definition replace_comma :: "string \<Rightarrow> string \<Rightarrow> string" where
  "replace_comma sep raw = concat (map (\<lambda>c. if c = CHR '','' then sep else [c]) raw)"

text \<open>
  \<open>s.split(sep)\<close> for a non-empty \<open>sep\<close>: the pieces between the non-overlapping
  occurrences of \<open>sep\<close>, found from the left. (The empty separator is refused by the caller
  below, as Python refuses it with \<open>ValueError\<close>.)
\<close>

function py_split :: "string \<Rightarrow> string \<Rightarrow> string list" where
  "py_split sep [] = [[]]"
| "py_split sep (c # cs) =
     (if sep \<noteq> [] \<and> prefix sep (c # cs) then [] # py_split sep (drop (length sep) (c # cs))
      else (case py_split sep cs of [] \<Rightarrow> [[c]] | p # ps \<Rightarrow> (c # p) # ps))"
  by pat_completeness auto
termination
  by (relation "measure (\<lambda>(sep, s). length s)") auto

section \<open>Errors\<close>

datatype error =
    RuntimeError string
  | ValueError
  | TypeError
  | UnboundLocalError
  | SystemExit nat

section \<open>CSV parsing and mapping\<close>

definition DEFAULT_LABEL_SEP :: string where
  "DEFAULT_LABEL_SEP = '';''"

definition DEFAULT_PRIORITY_MAP :: "(string \<times> string) list" where
  "DEFAULT_PRIORITY_MAP =
     [(''Highest'', ''urgent''), (''High'', ''high''), (''Medium'', ''medium''),
      (''Low'', ''low''), (''Lowest'', ''low'')]"

definition DEFAULT_STATUS_TO_STATE :: "(string \<times> string) list" where
  "DEFAULT_STATUS_TO_STATE =
     [(''To Do'', ''Backlog''), (''Selected for Development'', ''Unstarted''),
      (''In Progress'', ''Started''), (''In Review'', ''Started''),
      (''Done'', ''Completed''), (''Closed'', ''Completed'')]"

definition map_priority :: "string \<Rightarrow> string option" where
  "map_priority jira_priority =
     (if jira_priority = [] then None
      else map_of DEFAULT_PRIORITY_MAP (py_strip jira_priority))"

definition map_state :: "string \<Rightarrow> string option" where
  "map_state jira_status =
     (if jira_status = [] then None
      else map_of DEFAULT_STATUS_TO_STATE (py_strip jira_status))"

definition parse_labels :: "string option \<Rightarrow> string \<Rightarrow> error + string list" where
  "parse_labels raw sep =
     (if or_empty raw = [] then Inr []
      else if sep = [] then Inl ValueError
      else Inr (filter (\<lambda>p. p \<noteq> [])
                 (map py_strip (py_split sep (replace_comma sep (or_empty raw))))))"

definition infer_state_group :: "string option \<Rightarrow> string" where
  "infer_state_group state_name =
     (let name = py_lower (py_strip (or_empty state_name))
      in if name \<in> set [''backlog'', ''to do'', ''todo'', ''unstarted'', ''selected for development'']
         then ''backlog''
         else if name \<in> set [''in progress'', ''started'', ''in review'', ''doing'']
         then ''started''
         else if name \<in> set [''done'', ''completed'', ''closed'', ''resolved'']
         then ''completed''
         else if name \<in> set [''cancelled'', ''canceled'', ''wontfix'', ''won't fix'']
         then ''cancelled''
         else ''backlog'')"

section \<open>Data of the target service\<close>

text \<open>
  A reference entity (a label or a workflow state) is a JSON object of which the program
  reads the keys \<open>name\<close> and \<open>id\<close>; either may be missing or null. Every object the
  program tests for truth carries at least one key, so an entity that is present is truthy.
\<close>

record entity =
  ent_name :: "string option"
  ent_id :: "string option"

record project =
  p_id :: "string option"
  p_project_id :: "string option"
  p_identifier :: "string option"
  p_name :: "string option"
  p_slug :: "string option"

record label_payload =
  lp_name :: string

record state_payload =
  sp_name :: string
  sp_color :: string
  sp_group :: "string option"

record issue_payload =
  ip_name :: string
  ip_description :: "string option"
  ip_priority :: "string option"
  ip_state_id :: "string option"
  ip_label_ids :: "string list option"

text \<open>Truth of a value that is a string or \<open>None\<close>.\<close>

definition truthy :: "string option \<Rightarrow> bool" where
  "truthy x = (case x of None \<Rightarrow> False | Some s \<Rightarrow> s \<noteq> [])"

section \<open>HTTP collaborators\<close>

text \<open>
  \<open>get\<close> and \<open>post\<close> either return the decoded body or raise \<open>RuntimeError\<close>. The
  service behind them is a state \<open>'w\<close> with one transition per endpoint; a listing whose
  body is not an object list is among the failures. The base URL, workspace slug, project
  id and headers only select the URL and the headers of a request and are left to the
  collaborator. Every request the program issues is appended to a trace.
\<close>

datatype call =
    GetProjects
  | GetLabels
  | GetStates
  | PostLabel label_payload
  | PostState state_payload
  | PostIssue issue_payload

record 'w api =
  projects_endpoint :: "'w \<Rightarrow> (error + project list) \<times> 'w"
  labels_endpoint :: "'w \<Rightarrow> (error + entity list) \<times> 'w"
  states_endpoint :: "'w \<Rightarrow> (error + entity list) \<times> 'w"
  create_label_endpoint :: "label_payload \<Rightarrow> 'w \<Rightarrow> (error + entity) \<times> 'w"
  create_state_endpoint :: "state_payload \<Rightarrow> 'w \<Rightarrow> (error + entity) \<times> 'w"
  create_issue_endpoint :: "issue_payload \<Rightarrow> 'w \<Rightarrow> (error + entity) \<times> 'w"

record 'w net =
  world :: 'w
  trace :: "call list"

definition request :: "call \<Rightarrow> ('w \<Rightarrow> 'r \<times> 'w) \<Rightarrow> 'w net \<Rightarrow> 'r \<times> 'w net" where
  "request c f n =
     (case f (world n) of (r, w') \<Rightarrow> (r, \<lparr>world = w', trace = trace n @ [c]\<rparr>))"


definition is_post :: "call \<Rightarrow> bool" where
  "is_post c = (case c of GetProjects \<Rightarrow> False | GetLabels \<Rightarrow> False | GetStates \<Rightarrow> False
                | _ \<Rightarrow> True)"

section \<open>Plane lookups\<close>

text \<open>
  A Python dict built by a comprehension, as the list of its insertions: a later insertion
  under the same key replaces the earlier one, so a lookup reads the last.
\<close>

type_synonym cache = "(string \<times> entity) list"

definition dict_get :: "cache \<Rightarrow> string \<Rightarrow> entity option" where
  "dict_get d k = map_of (rev d) k"

definition by_name :: "entity list \<Rightarrow> cache" where
  "by_name items = map (\<lambda>item. (norm_key (ent_name item), item)) items"

definition list_labels :: "'w api \<Rightarrow> 'w net \<Rightarrow> (error + cache) \<times> 'w net" where
  "list_labels api n =
     (case request GetLabels (labels_endpoint api) n of
        (Inl e, n') \<Rightarrow> (Inl e, n')
      | (Inr items, n') \<Rightarrow> (Inr (by_name items), n'))"

definition ensure_label :: "'w api \<Rightarrow> string \<Rightarrow> 'w net \<Rightarrow> (error + entity) \<times> 'w net" where
  "ensure_label api name n =
     (case list_labels api n of
        (Inl e, n1) \<Rightarrow> (Inl e, n1)
      | (Inr existing, n1) \<Rightarrow>
          (let key = norm_key (Some name)
           in case dict_get existing key of
                Some found \<Rightarrow> (Inr found, n1)
              | None \<Rightarrow>
                  request (PostLabel \<lparr>lp_name = name\<rparr>)
                    (create_label_endpoint api \<lparr>lp_name = name\<rparr>) n1))"

definition list_states :: "'w api \<Rightarrow> 'w net \<Rightarrow> (error + cache) \<times> 'w net" where
  "list_states api n =
     (case request GetStates (states_endpoint api) n of
        (Inl e, n') \<Rightarrow> (Inl e, n')
      | (Inr items, n') \<Rightarrow> (Inr (by_name items), n'))"

definition ensure_state :: "'w api \<Rightarrow> string \<Rightarrow> 'w net \<Rightarrow> (error + entity) \<times> 'w net" where
  "ensure_state api name n =
     (case list_states api n of
        (Inl e, n1) \<Rightarrow> (Inl e, n1)
      | (Inr existing, n1) \<Rightarrow>
          (let key = norm_key (Some name)
           in case dict_get existing key of
                Some found \<Rightarrow> (Inr found, n1)
              | None \<Rightarrow>
                  (let payload = \<lparr>sp_name = name, sp_color = ''#9ca3af'', sp_group = None\<rparr>
                   in case request (PostState payload) (create_state_endpoint api payload) n1 of
                        (Inr created, n2) \<Rightarrow> (Inr created, n2)
                      | (Inl e, n2) \<Rightarrow>
                          (let grp = infer_state_group (Some name);
                               payload' = payload\<lparr>sp_group := Some grp\<rparr>
                           in case request (PostState payload')
                                     (create_state_endpoint api payload') n2 of
                                (Inr created, n3) \<Rightarrow> (Inr created, n3)
                              | (Inl e2, n3) \<Rightarrow> (Inl e2, n3)))))"

definition create_issue :: "'w api \<Rightarrow> issue_payload \<Rightarrow> 'w net \<Rightarrow> (error + entity) \<times> 'w net" where
  "create_issue api payload n = request (PostIssue payload) (create_issue_endpoint api payload) n"

section \<open>Project resolution\<close>

text \<open>
  \<open>re.match(r"^[0-9a-f-]{8,}$", s)\<close>: eight or more characters, each a digit, a letter
  \<open>a\<close> to \<open>f\<close> or a hyphen; \<open>$\<close> also matches before one final newline.
\<close>

definition hex_or_hyphen :: "char \<Rightarrow> bool" where
  "hex_or_hyphen c = (c \<in> set ''0123456789abcdef-'')"

definition looks_like_uuid :: "string \<Rightarrow> bool" where
  "looks_like_uuid s =
     (let t = (if s \<noteq> [] \<and> last s = CHR 0x0A then butlast s else s)
      in 8 \<le> length t \<and> list_all hex_or_hyphen t)"

fun match_project :: "string \<Rightarrow> project list \<Rightarrow> string option" where
  "match_project want_norm [] = None"
| "match_project want_norm (proj # results) =
     (let pid = py_or (p_id proj) (p_project_id proj);
          ident = norm_key (p_identifier proj);
          name = norm_key (p_name proj);
          slug = norm_key (p_slug proj)
      in if want_norm \<in> set [ident, name, slug] \<and> truthy pid then pid
         else match_project want_norm results)"

definition resolve_project_id ::
  "'w api \<Rightarrow> string \<Rightarrow> string \<Rightarrow> 'w net \<Rightarrow> (error + string) \<times> 'w net" where
  "resolve_project_id api ws_slug want n =
     (case request GetProjects (projects_endpoint api) n of
        (Inl e, n1) \<Rightarrow> (Inl e, n1)
      | (Inr results, n1) \<Rightarrow>
          (let want_norm = norm_key (Some want)
           in if looks_like_uuid want_norm then (Inr want, n1)
              else case match_project want_norm results of
                     Some pid \<Rightarrow> (Inr pid, n1)
                   | None \<Rightarrow>
                       (Inl (RuntimeError (''Could not resolve project '' @ [CHR 0x27] @ want
                               @ [CHR 0x27] @ '' in workspace '' @ [CHR 0x27] @ ws_slug
                               @ [CHR 0x27] @ ''.'')), n1)))"

section \<open>The import run\<close>

text \<open>
  The command-line flags the run reads. \<open>--rate-limit\<close> only makes the run sleep after a
  created issue and is left out.
\<close>

record args =
  label_sep :: string
  dry_run :: bool
  offline :: bool
  no_create_labels :: bool
  no_create_states :: bool

text \<open>A CSV row as \<open>csv.DictReader\<close> yields it: \<open>row.get(column)\<close>.\<close>

type_synonym row = "string \<Rightarrow> string option"

text \<open>The lines the run prints.\<close>

datatype log_line =
    WarnProjectResolution error
  | FatalMissingColumn string
  | SkipRow nat
  | DryState string
  | OfflineState string
  | DryLabel string
  | OfflineLabel string
  | DryRow nat issue_payload
  | OkRow nat entity
  | FailRow nat error
  | Done nat nat nat

record 'w run =
  net :: "'w net"
  label_cache :: cache
  state_cache :: cache
  created_count :: nat
  skipped :: nat
  failures :: nat
  out :: "log_line list"

text \<open>\<open>obj and obj.get("id")\<close>, then \<open>obj["id"]\<close>: the identifier to attach, if any.\<close>

definition attachable_id :: "entity option \<Rightarrow> string option" where
  "attachable_id obj =
     (case obj of
        None \<Rightarrow> None
      | Some e \<Rightarrow> (if truthy (ent_id e) then ent_id e else None))"

text \<open>Lines 269 to 281 of the source: the state object for a target state name.\<close>

definition resolve_state ::
  "'w api \<Rightarrow> args \<Rightarrow> string \<Rightarrow> 'w run \<Rightarrow> (error + entity option) \<times> 'w run" where
  "resolve_state api a target_state_name s =
     (let state_key = py_lower (py_strip target_state_name);
          state_obj = dict_get (state_cache s) state_key
      in if state_obj = None \<and> \<not> no_create_states a then
           (if dry_run a \<or> offline a then
              (Inr (Some \<lparr>ent_name = Some target_state_name, ent_id = None\<rparr>),
               s\<lparr>out := out s @ [DryState target_state_name]\<rparr>)
            else if offline a then
              (Inr (Some \<lparr>ent_name = Some target_state_name, ent_id = None\<rparr>),
               s\<lparr>out := out s @ [OfflineState target_state_name]\<rparr>)
            else
              (case ensure_state api target_state_name (net s) of
                 (Inl e, n1) \<Rightarrow> (Inl e, s\<lparr>net := n1\<rparr>)
               | (Inr created, n1) \<Rightarrow>
                   (case list_states api n1 of
                      (Inl e, n2) \<Rightarrow> (Inl e, s\<lparr>net := n2\<rparr>)
                    | (Inr fresh, n2) \<Rightarrow>
                        (Inr (Some created), s\<lparr>net := n2, state_cache := fresh\<rparr>))))
         else (Inr state_obj, s))"

text \<open>Lines 288 to 300 of the source: the label object for one tag.\<close>

definition resolve_label ::
  "'w api \<Rightarrow> args \<Rightarrow> string \<Rightarrow> 'w run \<Rightarrow> (error + entity option) \<times> 'w run" where
  "resolve_label api a lbl s =
     (let key = py_lower (py_strip lbl);
          lbl_obj = dict_get (label_cache s) key
      in if lbl_obj = None \<and> \<not> no_create_labels a then
           (if dry_run a \<or> offline a then
              (Inr (Some \<lparr>ent_name = Some lbl, ent_id = None\<rparr>),
               s\<lparr>out := out s @ [DryLabel lbl]\<rparr>)
            else if offline a then
              (Inr (Some \<lparr>ent_name = Some lbl, ent_id = None\<rparr>),
               s\<lparr>out := out s @ [OfflineLabel lbl]\<rparr>)
            else
              (case ensure_label api lbl (net s) of
                 (Inl e, n1) \<Rightarrow> (Inl e, s\<lparr>net := n1\<rparr>)
               | (Inr created, n1) \<Rightarrow>
                   (case list_labels api n1 of
                      (Inl e, n2) \<Rightarrow> (Inl e, s\<lparr>net := n2\<rparr>)
                    | (Inr fresh, n2) \<Rightarrow>
                        (Inr (Some created), s\<lparr>net := n2, label_cache := fresh\<rparr>))))
         else (Inr lbl_obj, s))"

text \<open>
  The loop over the tags of a row, lines 287 to 302: \<open>label_ids\<close> collects the identifiers,
  \<open>objs\<close> records the object each tag resolved to (the loop variable \<open>lbl_obj\<close> at the end
  of each iteration).
\<close>

fun resolve_labels ::
  "'w api \<Rightarrow> args \<Rightarrow> string list \<Rightarrow> string list \<Rightarrow> entity option list \<Rightarrow> 'w run
     \<Rightarrow> (error + string list \<times> entity option list) \<times> 'w run" where
  "resolve_labels api a [] label_ids objs s = (Inr (label_ids, objs), s)"
| "resolve_labels api a (lbl # labels) label_ids objs s =
     (case resolve_label api a lbl s of
        (Inl e, s') \<Rightarrow> (Inl e, s')
      | (Inr lbl_obj, s') \<Rightarrow>
          resolve_labels api a labels
            (case attachable_id lbl_obj of
               Some i \<Rightarrow> label_ids @ [i]
             | None \<Rightarrow> label_ids)
            (objs @ [lbl_obj]) s')"

text \<open>
  What the mapping of one row resolved: the payload, the state object (if a target state
  was mapped) and the object of every tag.
\<close>

record mapped_row =
  payload :: issue_payload
  state_obj :: "entity option"
  label_objs :: "entity option list"

text \<open>Lines 253 to 304 of the source, for a row whose name is \<open>name\<close>.\<close>

definition map_row ::
  "'w api \<Rightarrow> args \<Rightarrow> string \<Rightarrow> row \<Rightarrow> 'w run \<Rightarrow> (error + mapped_row) \<times> 'w run" where
  "map_row api a name r s =
     (let description = or_empty (r ''Description'');
          jira_labels_raw = or_empty (py_or (r ''Labels'') (r ''labels''));
          jira_status = or_empty (py_or (r ''Status'') (r ''status''));
          jira_priority = or_empty (py_or (r ''Priority'') (r ''priority''))
      in case parse_labels (Some jira_labels_raw) (label_sep a) of
           Inl e \<Rightarrow> (Inl e, s)
         | Inr labels \<Rightarrow>
             (let target_state_name = map_state jira_status;
                  priority = map_priority jira_priority
              in case (if truthy target_state_name
                       then resolve_state api a (or_empty target_state_name) s
                       else (Inr None, s)) of
                   (Inl e, s1) \<Rightarrow> (Inl e, s1)
                 | (Inr sobj, s1) \<Rightarrow>
                     (case resolve_labels api a labels [] [] s1 of
                        (Inl e, s2) \<Rightarrow> (Inl e, s2)
                      | (Inr (label_ids, lobjs), s2) \<Rightarrow>
                          (Inr \<lparr>payload =
                                  \<lparr>ip_name = name,
                                   ip_description =
                                     (if description \<noteq> [] then Some description else None),
                                   ip_priority = (if truthy priority then priority else None),
                                   ip_state_id = attachable_id sobj,
                                   ip_label_ids =
                                     (if label_ids \<noteq> [] then Some label_ids else None)\<rparr>,
                                state_obj = sobj,
                                label_objs = lobjs\<rparr>, s2))))"

text \<open>
  One iteration of the loop over the rows, lines 247 to 319. The first component is the
  exception that leaves the iteration uncaught, if any. The body of a created issue is an
  object, as the bodies of the other creations are.
\<close>

definition process_row ::
  "'w api \<Rightarrow> args \<Rightarrow> nat \<Rightarrow> row \<Rightarrow> 'w run \<Rightarrow> error option \<times> 'w run" where
  "process_row api a i r s =
     (let name = py_strip (or_empty (r ''Summary''))
      in if name = [] then
           (None, s\<lparr>skipped := skipped s + 1, out := out s @ [SkipRow i]\<rparr>)
         else
           (case map_row api a name r s of
              (Inl e, s1) \<Rightarrow> (Some e, s1)
            | (Inr m, s1) \<Rightarrow>
                (if dry_run a \<or> offline a then
                   (None, s1\<lparr>created_count := created_count s1 + 1,
                              out := out s1 @ [DryRow i (payload m)]\<rparr>)
                 else
                   (case create_issue api (payload m) (net s1) of
                      (Inr resp, n2) \<Rightarrow>
                        (None, s1\<lparr>net := n2, created_count := created_count s1 + 1,
                                   out := out s1 @ [OkRow i resp]\<rparr>)
                    | (Inl e, n2) \<Rightarrow>
                        (None, s1\<lparr>net := n2, failures := failures s1 + 1,
                                   out := out s1 @ [FailRow i e]\<rparr>)))))"

text \<open>The loop \<open>for i, row in enumerate(reader, start=1)\<close>; an uncaught exception ends it.\<close>

fun run_rows ::
  "'w api \<Rightarrow> args \<Rightarrow> nat \<Rightarrow> row list \<Rightarrow> 'w run \<Rightarrow> error option \<times> 'w run" where
  "run_rows api a i [] s = (None, s)"
| "run_rows api a i (r # rows) s =
     (case process_row api a i r s of
        (Some e, s') \<Rightarrow> (Some e, s')
      | (None, s') \<Rightarrow> run_rows api a (Suc i) rows s')"

text \<open>
  \<open>main\<close> once the configuration is read. The call of \<open>resolve_project_id\<close> names the
  local variable \<open>headers\<close> before its assignment, so evaluating the arguments raises
  \<open>UnboundLocalError\<close>, which the surrounding \<open>try\<close> turns into a warning: the project
  listing is not requested and the configured project id is used as it is. The CSV file is
  given by its header (\<open>reader.fieldnames\<close>, \<open>None\<close> for an empty file) and its rows.
\<close>

definition main ::
  "'w api \<Rightarrow> args \<Rightarrow> string list option \<Rightarrow> row list \<Rightarrow> 'w \<Rightarrow> error option \<times> 'w run" where
  "main api a fieldnames rows w =
     (let s0 = \<lparr>net = \<lparr>world = w, trace = []\<rparr>, label_cache = [], state_cache = [],
                created_count = 0, skipped = 0, failures = 0,
                out = [WarnProjectResolution UnboundLocalError]\<rparr>
      in case list_labels api (net s0) of
           (Inl e, n1) \<Rightarrow> (Some e, s0\<lparr>net := n1\<rparr>)
         | (Inr labels, n1) \<Rightarrow>
             (case list_states api n1 of
                (Inl e, n2) \<Rightarrow> (Some e, s0\<lparr>net := n2, label_cache := labels\<rparr>)
              | (Inr states, n2) \<Rightarrow>
                  (let s1 = s0\<lparr>net := n2, label_cache := labels, state_cache := states\<rparr>
                   in case fieldnames of
                        None \<Rightarrow> (Some TypeError, s1)
                      | Some cols \<Rightarrow>
                          (if ''Summary'' \<notin> set cols then
                             (Some (SystemExit 2),
                              s1\<lparr>out := out s1 @ [FatalMissingColumn ''Summary'']\<rparr>)
                           else
                             (case run_rows api a 1 rows s1 of
                                (Some e, s2) \<Rightarrow> (Some e, s2)
                              | (None, s2) \<Rightarrow>
                                  (None, s2\<lparr>out := out s2 @
                                     [Done (created_count s2) (skipped s2) (failures s2)]\<rparr>))))))"

section \<open>Test doubles of the service\<close>

text \<open>
  A service that keeps the entities it created and lists them: the listing collaborator
  of the idempotence property, which shows a new entity after its creation. \<open>new_id\<close>
  chooses the identifier of a new entity, \<open>accepts_label\<close> and \<open>accepts_state\<close> say which
  creation payloads the service accepts.
\<close>

record mock =
  mock_labels :: "entity list"
  mock_states :: "entity list"

definition mock_api ::
  "(mock \<Rightarrow> string) \<Rightarrow> (label_payload \<Rightarrow> bool) \<Rightarrow> (state_payload \<Rightarrow> bool) \<Rightarrow> mock api" where
  "mock_api new_id accepts_label accepts_state =
     \<lparr>projects_endpoint = (\<lambda>w. (Inr [], w)),
      labels_endpoint = (\<lambda>w. (Inr (mock_labels w), w)),
      states_endpoint = (\<lambda>w. (Inr (mock_states w), w)),
      create_label_endpoint = (\<lambda>p w.
        if accepts_label p then
          (let e = \<lparr>ent_name = Some (lp_name p), ent_id = Some (new_id w)\<rparr>
           in (Inr e, w\<lparr>mock_labels := mock_labels w @ [e]\<rparr>))
        else (Inl (RuntimeError ''POST labels -> 400''), w)),
      create_state_endpoint = (\<lambda>p w.
        if accepts_state p then
          (let e = \<lparr>ent_name = Some (sp_name p), ent_id = Some (new_id w)\<rparr>
           in (Inr e, w\<lparr>mock_states := mock_states w @ [e]\<rparr>))
        else (Inl (RuntimeError ''POST states -> 400''), w)),
      create_issue_endpoint = (\<lambda>p w.
        (Inr \<lparr>ent_name = Some (ip_name p), ent_id = Some (new_id w)\<rparr>, w))\<rparr>"

text \<open>A service of which every request fails.\<close>

definition unreachable_api :: "unit api" where
  "unreachable_api =
     \<lparr>projects_endpoint = (\<lambda>w. (Inl (RuntimeError ''GET projects -> 503''), w)),
      labels_endpoint = (\<lambda>w. (Inl (RuntimeError ''GET labels -> 503''), w)),
      states_endpoint = (\<lambda>w. (Inl (RuntimeError ''GET states -> 503''), w)),
      create_label_endpoint = (\<lambda>p w. (Inl (RuntimeError ''POST labels -> 503''), w)),
      create_state_endpoint = (\<lambda>p w. (Inl (RuntimeError ''POST states -> 503''), w)),
      create_issue_endpoint = (\<lambda>p w. (Inl (RuntimeError ''POST issues -> 503''), w))\<rparr>"

section \<open>The tag splitter as the specification words it\<close>

text \<open>
  \<open>splitTags\<close> follows the specification's sentence, not the source: commas are replaced by
  the separator, the text is split at the separator, every piece is trimmed and the empty
  pieces are dropped; an absent input gives no piece. It is compared with
  \<open>parse_labels\<close> below.
\<close>

definition splitTags :: "string option \<Rightarrow> string \<Rightarrow> string list" where
  "splitTags raw separator =
     (case raw of
        None \<Rightarrow> []
      | Some text \<Rightarrow>
          filter (\<lambda>piece. piece \<noteq> [])
            (map py_strip (py_split separator (replace_comma separator text))))"

section \<open>Properties of the text helpers\<close>

lemma py_strip_Nil: "py_strip [] = []"
  by (simp add: py_strip_def)

lemma py_strip_hd: "py_strip s \<noteq> [] \<Longrightarrow> \<not> py_isspace (hd (py_strip s))"
proof -
  assume ne: "py_strip s \<noteq> []"
  define t where "t = dropWhile py_isspace s"
  define u where "u = dropWhile py_isspace (rev t)"
  have r: "py_strip s = rev u" by (simp add: py_strip_def t_def u_def)
  with ne have une: "u \<noteq> []" by simp
  obtain v where v: "rev t = v @ u"
    unfolding u_def by (metis takeWhile_dropWhile_id)
  then have "t = rev u @ rev v" by (metis rev_append rev_rev_ident)
  with une have "hd (rev u) = hd t" "t \<noteq> []" by auto
  moreover have "\<not> py_isspace (hd t)" using \<open>t \<noteq> []\<close> unfolding t_def by (rule hd_dropWhile)
  ultimately show ?thesis using r by simp
qed

lemma py_strip_last: "py_strip s \<noteq> [] \<Longrightarrow> \<not> py_isspace (last (py_strip s))"
proof -
  assume ne: "py_strip s \<noteq> []"
  define u where "u = dropWhile py_isspace (rev (dropWhile py_isspace s))"
  have r: "py_strip s = rev u" by (simp add: py_strip_def u_def)
  with ne have une: "u \<noteq> []" by simp
  then have "\<not> py_isspace (hd u)" unfolding u_def by (rule hd_dropWhile)
  with une r show ?thesis by (simp add: last_rev)
qed

section \<open>Splitting a tag cell\<close>

text \<open>
  C8. \<open>parse_labels\<close> (the specification's \<open>splitTags\<close>) replaces every comma of its input by
  the separator, splits at the separator, trims every piece and drops the empty ones: for a
  non-empty separator it is the function the specification words. For any separator, also
  the empty one, an absent or empty input gives the empty sequence and no error. The cell
  \<open>a;b,c\<close> with separator \<open>;\<close> gives \<open>a\<close>, \<open>b\<close>, \<open>c\<close>; a piece that occurs several times
  is kept each time. Every piece returned is non-empty and has no white space at either end.
\<close>

theorem parse_labels_splitTags:
  "(separator \<noteq> [] \<longrightarrow> parse_labels raw separator = Inr (splitTags raw separator))
   \<and> parse_labels None separator = Inr []
   \<and> parse_labels (Some []) separator = Inr []
   \<and> parse_labels (Some ''a;b,c'') '';'' = Inr [''a'', ''b'', ''c'']
   \<and> parse_labels (Some ''a;b,a;a'') '';'' = Inr [''a'', ''b'', ''a'', ''a'']
   \<and> (\<forall>pieces piece. parse_labels raw separator = Inr pieces \<longrightarrow> piece \<in> set pieces \<longrightarrow>
         piece \<noteq> [] \<and> \<not> py_isspace (hd piece) \<and> \<not> py_isspace (last piece))"
proof (intro conjI)
  show "separator \<noteq> [] \<longrightarrow> parse_labels raw separator = Inr (splitTags raw separator)"
    by (cases raw)
      (auto simp: parse_labels_def splitTags_def or_empty_def replace_comma_def py_strip_Nil)
  show "parse_labels None separator = Inr []"
    by (simp add: parse_labels_def or_empty_def)
  show "parse_labels (Some []) separator = Inr []"
    by (simp add: parse_labels_def or_empty_def)
  show "parse_labels (Some ''a;b,c'') '';'' = Inr [''a'', ''b'', ''c'']"
    by code_simp
  show "parse_labels (Some ''a;b,a;a'') '';'' = Inr [''a'', ''b'', ''a'', ''a'']"
    by code_simp
  show "\<forall>pieces piece. parse_labels raw separator = Inr pieces \<longrightarrow> piece \<in> set pieces \<longrightarrow>
         piece \<noteq> [] \<and> \<not> py_isspace (hd piece) \<and> \<not> py_isspace (last piece)"
    by (auto simp: parse_labels_def split: if_splits dest: py_strip_hd py_strip_last)
qed

theorem parse_labels_splitTags_witness:
  "'';'' \<noteq> ([] :: string)
   \<and> parse_labels (Some '' x ,y;;x'') '';'' = Inr [''x'', ''y'', ''x'']
   \<and> splitTags (Some '' x ,y;;x'') '';'' = [''x'', ''y'', ''x'']
   \<and> ''y'' \<in> set [''x'', ''y'', ''x'']
   \<and> \<not> py_isspace (hd ''y'') \<and> \<not> py_isspace (last ''y'')"
proof -
  have ne: "'';'' \<noteq> ([] :: string)" by simp
  have v: "splitTags (Some '' x ,y;;x'') '';'' = [''x'', ''y'', ''x'']" by code_simp
  note t = parse_labels_splitTags [of "'';''" "Some '' x ,y;;x''"]
  from t ne
  have p: "parse_labels (Some '' x ,y;;x'') '';'' = Inr (splitTags (Some '' x ,y;;x'') '';'')"
    by blast
  have m: "''y'' \<in> set [''x'', ''y'', ''x'']" by simp
  from t p v m have "\<not> py_isspace (hd ''y'') \<and> \<not> py_isspace (last ''y'')"
    by metis
  with ne p v m show ?thesis by simp
qed

section \<open>State-group inference\<close>

text \<open>
  C9. \<open>infer_state_group\<close> is a total function into the four categories \<open>backlog\<close>,
  \<open>started\<close>, \<open>completed\<close> and \<open>cancelled\<close>. The category is decided by membership of the
  trimmed, lower-cased name in fixed keyword sets, and every name in none of the sets of
  \<open>started\<close>, \<open>completed\<close> and \<open>cancelled\<close> gives \<open>backlog\<close>, as do the absent and the
  empty name.
\<close>

theorem infer_state_group_total:
  "infer_state_group state_name \<in> set [''backlog'', ''started'', ''completed'', ''cancelled'']
   \<and> (norm_key state_name \<in> set [''in progress'', ''started'', ''in review'', ''doing'']
        \<longrightarrow> infer_state_group state_name = ''started'')
   \<and> (norm_key state_name \<in> set [''done'', ''completed'', ''closed'', ''resolved'']
        \<longrightarrow> infer_state_group state_name = ''completed'')
   \<and> (norm_key state_name \<in> set [''cancelled'', ''canceled'', ''wontfix'', ''won't fix'']
        \<longrightarrow> infer_state_group state_name = ''cancelled'')
   \<and> (norm_key state_name \<notin> set [''in progress'', ''started'', ''in review'', ''doing'',
                                   ''done'', ''completed'', ''closed'', ''resolved'',
                                   ''cancelled'', ''canceled'', ''wontfix'', ''won't fix'']
        \<longrightarrow> infer_state_group state_name = ''backlog'')
   \<and> infer_state_group None = ''backlog''
   \<and> infer_state_group (Some []) = ''backlog''"
proof (intro conjI)
  show "infer_state_group None = ''backlog''" by code_simp
  show "infer_state_group (Some []) = ''backlog''" by code_simp
qed (auto simp: infer_state_group_def norm_key_def Let_def)

theorem infer_state_group_total_witness:
  "norm_key (Some ''  In Review '') \<in> set [''in progress'', ''started'', ''in review'', ''doing'']
   \<and> infer_state_group (Some ''  In Review '') = ''started''
   \<and> norm_key (Some ''RESOLVED'') \<in> set [''done'', ''completed'', ''closed'', ''resolved'']
   \<and> infer_state_group (Some ''RESOLVED'') = ''completed''
   \<and> norm_key (Some ''Won't Fix'') \<in> set [''cancelled'', ''canceled'', ''wontfix'', ''won't fix'']
   \<and> infer_state_group (Some ''Won't Fix'') = ''cancelled''
   \<and> norm_key (Some ''Blocked'') \<notin> set [''in progress'', ''started'', ''in review'', ''doing'',
                                   ''done'', ''completed'', ''closed'', ''resolved'',
                                   ''cancelled'', ''canceled'', ''wontfix'', ''won't fix'']
   \<and> infer_state_group (Some ''Blocked'') = ''backlog''"
proof -
  have a: "norm_key (Some ''  In Review '')
             \<in> set [''in progress'', ''started'', ''in review'', ''doing'']"
    by code_simp
  have b: "norm_key (Some ''RESOLVED'') \<in> set [''done'', ''completed'', ''closed'', ''resolved'']"
    by code_simp
  have c: "norm_key (Some ''Won't Fix'')
             \<in> set [''cancelled'', ''canceled'', ''wontfix'', ''won't fix'']"
    by code_simp
  have d: "norm_key (Some ''Blocked'') \<notin> set [''in progress'', ''started'', ''in review'', ''doing'',
                                   ''done'', ''completed'', ''closed'', ''resolved'',
                                   ''cancelled'', ''canceled'', ''wontfix'', ''won't fix'']"
    by code_simp
  from a infer_state_group_total [of "Some ''  In Review ''"]
  have a': "infer_state_group (Some ''  In Review '') = ''started''" by blast
  from b infer_state_group_total [of "Some ''RESOLVED''"]
  have b': "infer_state_group (Some ''RESOLVED'') = ''completed''" by blast
  from c infer_state_group_total [of "Some ''Won't Fix''"]
  have c': "infer_state_group (Some ''Won't Fix'') = ''cancelled''" by blast
  from d infer_state_group_total [of "Some ''Blocked''"]
  have d': "infer_state_group (Some ''Blocked'') = ''backlog''" by blast
  from a a' b b' c c' d d' show ?thesis by blast
qed

section \<open>Project resolution\<close>

lemma looks_like_uuid_iff:
  "8 \<le> length s \<Longrightarrow> list_all hex_or_hyphen s \<Longrightarrow> looks_like_uuid s"
proof -
  assume len: "8 \<le> length s" and hex: "list_all hex_or_hyphen s"
  have "\<not> hex_or_hyphen (CHR 0x0A)" by (simp add: hex_or_hyphen_def)
  moreover from len have "s \<noteq> []" by auto
  ultimately have "last s \<noteq> CHR 0x0A" using hex
    by (metis last_in_set list_all_iff)
  with len hex show ?thesis by (simp add: looks_like_uuid_def)
qed

text \<open>
  C1, as the code has it. For every input whose normalized form is a token of at least 8
  characters drawn only from hexadecimal digits and hyphens, \<open>resolve_project_id\<close> requests
  the project listing exactly once and first; if the listing succeeds, the input is returned
  verbatim, whatever the listing holds; if the listing fails, its failure is raised.
\<close>

theorem resolve_project_id_uuid_shape:
  assumes "8 \<le> length (norm_key (Some want))"
    and "list_all hex_or_hyphen (norm_key (Some want))"
  shows "resolve_project_id api ws_slug want n =
           (case projects_endpoint api (world n) of
              (Inl e, w') \<Rightarrow> (Inl e, \<lparr>world = w', trace = trace n @ [GetProjects]\<rparr>)
            | (Inr results, w') \<Rightarrow> (Inr want, \<lparr>world = w', trace = trace n @ [GetProjects]\<rparr>))"
proof -
  from assms have u: "looks_like_uuid (norm_key (Some want))" by (rule looks_like_uuid_iff)
  obtain r w' where ep: "projects_endpoint api (world n) = (r, w')" by (cases "projects_endpoint api (world n)")
  show ?thesis
    using u ep by (cases r) (simp_all add: resolve_project_id_def request_def)
qed

theorem resolve_project_id_uuid_shape_witness:
  "8 \<le> length (norm_key (Some '' ABC12345-DE67''))
   \<and> list_all hex_or_hyphen (norm_key (Some '' ABC12345-DE67''))
   \<and> resolve_project_id (mock_api (\<lambda>w. ''id-1'') (\<lambda>p. True) (\<lambda>p. True)) ''acme''
         '' ABC12345-DE67'' \<lparr>world = \<lparr>mock_labels = [], mock_states = []\<rparr>, trace = []\<rparr>
       = (Inr '' ABC12345-DE67'',
          \<lparr>world = \<lparr>mock_labels = [], mock_states = []\<rparr>, trace = [GetProjects]\<rparr>)"
proof -
  have a: "8 \<le> length (norm_key (Some '' ABC12345-DE67''))" by code_simp
  have b: "list_all hex_or_hyphen (norm_key (Some '' ABC12345-DE67''))" by code_simp
  from resolve_project_id_uuid_shape [OF a b,
      of "mock_api (\<lambda>w. ''id-1'') (\<lambda>p. True) (\<lambda>p. True)" "''acme''"
         "\<lparr>world = \<lparr>mock_labels = [], mock_states = []\<rparr>, trace = []\<rparr>"]
  show ?thesis using a b by (simp add: mock_api_def)
qed

text \<open>
  The claim C1 as stated fails: for the input \<open>abc12345-de67\<close> the project listing is
  requested, and when that request fails the input is not returned.
\<close>

theorem resolve_project_id_lists_first:
  "8 \<le> length (norm_key (Some ''abc12345-de67''))
   \<and> list_all hex_or_hyphen (norm_key (Some ''abc12345-de67''))
   \<and> resolve_project_id unreachable_api ''acme'' ''abc12345-de67'' \<lparr>world = (), trace = []\<rparr>
       = (Inl (RuntimeError ''GET projects -> 503''), \<lparr>world = (), trace = [GetProjects]\<rparr>)"
  by code_simp

section \<open>Creating a workflow state\<close>

text \<open>
  C4. When the state listing succeeds and does not hold the name, \<open>ensure_state\<close> first
  posts the minimal payload, the name and the default colour \<open>#9ca3af\<close>. If that call
  succeeds, its entity is returned and nothing else is posted. If it fails, the same
  payload with the inferred group is posted exactly once more, and the outcome of that
  second call is the outcome of \<open>ensure_state\<close>: its entity, or its failure raised to the
  caller. The trace shows one listing and one or two creation calls, never more.
\<close>

theorem ensure_state_retry:
  assumes "states_endpoint api (world n) = (Inr items, w1)"
    and "dict_get (by_name items) (norm_key (Some name)) = None"
  shows "ensure_state api name n =
           (let minimal = \<lparr>sp_name = name, sp_color = ''#9ca3af'', sp_group = None\<rparr>;
                augmented = \<lparr>sp_name = name, sp_color = ''#9ca3af'',
                             sp_group = Some (infer_state_group (Some name))\<rparr>
            in case create_state_endpoint api minimal w1 of
                 (Inr created, w2) \<Rightarrow>
                   (Inr created, \<lparr>world = w2, trace = trace n @ [GetStates, PostState minimal]\<rparr>)
               | (Inl e, w2) \<Rightarrow>
                   (case create_state_endpoint api augmented w2 of
                      (result, w3) \<Rightarrow>
                        (result, \<lparr>world = w3,
                                  trace = trace n @ [GetStates, PostState minimal,
                                                     PostState augmented]\<rparr>)))"
  using assms
  by (auto simp: ensure_state_def list_states_def request_def Let_def split: prod.splits sum.splits)

theorem ensure_state_retry_witness:
  "states_endpoint (mock_api (\<lambda>w. ''s-1'') (\<lambda>p. True) (\<lambda>p. sp_group p \<noteq> None))
       (world \<lparr>world = \<lparr>mock_labels = [], mock_states = []\<rparr>, trace = []\<rparr>)
     = (Inr [], \<lparr>mock_labels = [], mock_states = []\<rparr>)
   \<and> dict_get (by_name []) (norm_key (Some ''In Review'')) = None
   \<and> ensure_state (mock_api (\<lambda>w. ''s-1'') (\<lambda>p. True) (\<lambda>p. sp_group p \<noteq> None)) ''In Review''
         \<lparr>world = \<lparr>mock_labels = [], mock_states = []\<rparr>, trace = []\<rparr>
       = (Inr \<lparr>ent_name = Some ''In Review'', ent_id = Some ''s-1''\<rparr>,
          \<lparr>world = \<lparr>mock_labels = [],
                     mock_states = [\<lparr>ent_name = Some ''In Review'', ent_id = Some ''s-1''\<rparr>]\<rparr>,
           trace = [GetStates,
                    PostState \<lparr>sp_name = ''In Review'', sp_color = ''#9ca3af'', sp_group = None\<rparr>,
                    PostState \<lparr>sp_name = ''In Review'', sp_color = ''#9ca3af'',
                               sp_group = Some ''started''\<rparr>]\<rparr>)
   \<and> ensure_state (mock_api (\<lambda>w. ''s-1'') (\<lambda>p. True) (\<lambda>p. False)) ''In Review''
         \<lparr>world = \<lparr>mock_labels = [], mock_states = []\<rparr>, trace = []\<rparr>
       = (Inl (RuntimeError ''POST states -> 400''),
          \<lparr>world = \<lparr>mock_labels = [], mock_states = []\<rparr>,
           trace = [GetStates,
                    PostState \<lparr>sp_name = ''In Review'', sp_color = ''#9ca3af'', sp_group = None\<rparr>,
                    PostState \<lparr>sp_name = ''In Review'', sp_color = ''#9ca3af'',
                               sp_group = Some ''started''\<rparr>]\<rparr>)"
proof -
  let ?n = "\<lparr>world = \<lparr>mock_labels = [], mock_states = []\<rparr>, trace = []\<rparr>"
  let ?A = "mock_api (\<lambda>w. ''s-1'') (\<lambda>p. True) (\<lambda>p. sp_group p \<noteq> None)"
  let ?B = "mock_api (\<lambda>w. ''s-1'') (\<lambda>p. True) (\<lambda>p. False)"
  have a: "states_endpoint ?A (world ?n) = (Inr [], \<lparr>mock_labels = [], mock_states = []\<rparr>)"
    by (simp add: mock_api_def)
  have a': "states_endpoint ?B (world ?n) = (Inr [], \<lparr>mock_labels = [], mock_states = []\<rparr>)"
    by (simp add: mock_api_def)
  have b: "dict_get (by_name []) (norm_key (Some ''In Review'')) = None"
    by (simp add: dict_get_def by_name_def)
  have g: "infer_state_group (Some ''In Review'') = ''started''" by code_simp
  from ensure_state_retry [OF a b] ensure_state_retry [OF a' b] a b g
  show ?thesis by (simp add: mock_api_def Let_def)
qed

section \<open>Ensuring an entity twice\<close>











section \<open>Rows without a name\<close>

text \<open>
  C7. A row whose \<open>Summary\<close> is absent, empty or blank only increments the skipped
  counter and prints its skip line: the row is not mapped, no request is issued (the
  service and the trace are unchanged), and the created and failed counters keep their
  values.
\<close>

theorem process_row_empty_summary:
  assumes "py_strip (or_empty (r ''Summary'')) = []"
  shows "process_row api a i r s = (None, s\<lparr>skipped := skipped s + 1, out := out s @ [SkipRow i]\<rparr>)
         \<and> net (snd (process_row api a i r s)) = net s
         \<and> created_count (snd (process_row api a i r s)) = created_count s
         \<and> failures (snd (process_row api a i r s)) = failures s
         \<and> skipped (snd (process_row api a i r s)) = skipped s + 1"
  using assms by (simp add: process_row_def)

theorem process_row_empty_summary_witness:
  "py_strip (or_empty ([''Summary'' \<mapsto> ''   '', ''Labels'' \<mapsto> ''auth''] ''Summary'')) = []
   \<and> process_row unreachable_api
         \<lparr>label_sep = '';'', dry_run = False, offline = False,
          no_create_labels = False, no_create_states = False\<rparr>
         3 [''Summary'' \<mapsto> ''   '', ''Labels'' \<mapsto> ''auth'']
         \<lparr>net = \<lparr>world = (), trace = []\<rparr>, label_cache = [], state_cache = [],
          created_count = 0, skipped = 0, failures = 0, out = []\<rparr>
       = (None,
          \<lparr>net = \<lparr>world = (), trace = []\<rparr>, label_cache = [], state_cache = [],
           created_count = 0, skipped = 1, failures = 0, out = [SkipRow 3]\<rparr>)"
proof -
  have h: "py_strip (or_empty ([''Summary'' \<mapsto> ''   '', ''Labels'' \<mapsto> ''auth''] ''Summary'')) = []"
    by (simp add: py_strip_def py_isspace_def or_empty_def)
  from process_row_empty_summary [where r = "[''Summary'' \<mapsto> ''   '', ''Labels'' \<mapsto> ''auth'']"
      and api = unreachable_api
      and a = "\<lparr>label_sep = '';'', dry_run = False, offline = False,
        no_create_labels = False, no_create_states = False\<rparr>" and i = 3
      and s = "\<lparr>net = \<lparr>world = (), trace = []\<rparr>, label_cache = [], state_cache = [],
        created_count = 0, skipped = 0, failures = 0, out = []\<rparr>", OF h]
  show ?thesis using h by simp
qed

section \<open>Dry-run and offline runs\<close>

lemma resolve_state_simulated:
  assumes "dry_run a \<or> offline a"
  shows "\<exists>obj lines. resolve_state api a t s = (Inr obj, s\<lparr>out := out s @ lines\<rparr>)"
proof (cases "dict_get (state_cache s) (py_lower (py_strip t)) = None \<and> \<not> no_create_states a")
  case True
  with assms have "resolve_state api a t s
      = (Inr (Some \<lparr>ent_name = Some t, ent_id = None\<rparr>), s\<lparr>out := out s @ [DryState t]\<rparr>)"
    by (simp add: resolve_state_def Let_def)
  then show ?thesis by blast
next
  case False
  then have "resolve_state api a t s
      = (Inr (dict_get (state_cache s) (py_lower (py_strip t))), s\<lparr>out := out s @ []\<rparr>)"
    by (auto simp: resolve_state_def Let_def)
  then show ?thesis by blast
qed

lemma resolve_label_simulated:
  assumes "dry_run a \<or> offline a"
  shows "\<exists>obj lines. resolve_label api a t s = (Inr obj, s\<lparr>out := out s @ lines\<rparr>)"
proof (cases "dict_get (label_cache s) (py_lower (py_strip t)) = None \<and> \<not> no_create_labels a")
  case True
  with assms have "resolve_label api a t s
      = (Inr (Some \<lparr>ent_name = Some t, ent_id = None\<rparr>), s\<lparr>out := out s @ [DryLabel t]\<rparr>)"
    by (simp add: resolve_label_def Let_def)
  then show ?thesis by blast
next
  case False
  then have "resolve_label api a t s
      = (Inr (dict_get (label_cache s) (py_lower (py_strip t))), s\<lparr>out := out s @ []\<rparr>)"
    by (auto simp: resolve_label_def Let_def)
  then show ?thesis by blast
qed

lemma resolve_labels_simulated:
  assumes "dry_run a \<or> offline a"
  shows "\<exists>ids objs' lines.
           resolve_labels api a lbls ids0 objs0 s = (Inr (ids, objs'), s\<lparr>out := out s @ lines\<rparr>)"
proof (induction lbls arbitrary: ids0 objs0 s)
  case Nil
  have "resolve_labels api a [] ids0 objs0 s = (Inr (ids0, objs0), s\<lparr>out := out s @ []\<rparr>)"
    by simp
  then show ?case by blast
next
  case (Cons lbl lbls)
  from resolve_label_simulated [OF assms]
  obtain obj l1 where r: "resolve_label api a lbl s = (Inr obj, s\<lparr>out := out s @ l1\<rparr>)"
    by blast
  let ?s1 = "s\<lparr>out := out s @ l1\<rparr>"
  let ?ids1 = "case attachable_id obj of Some i \<Rightarrow> ids0 @ [i] | None \<Rightarrow> ids0"
  from Cons.IH [of ?ids1 "objs0 @ [obj]" ?s1]
  obtain ids objs' l2 where
    "resolve_labels api a lbls ?ids1 (objs0 @ [obj]) ?s1
       = (Inr (ids, objs'), ?s1\<lparr>out := out ?s1 @ l2\<rparr>)"
    by blast
  with r have "resolve_labels api a (lbl # lbls) ids0 objs0 s
       = (Inr (ids, objs'), s\<lparr>out := out s @ (l1 @ l2)\<rparr>)"
    by simp
  then show ?case by blast
qed

lemma map_row_simulated:
  assumes sim: "dry_run a \<or> offline a"
  shows "\<exists>res lines. map_row api a name r s = (res, s\<lparr>out := out s @ lines\<rparr>)
           \<and> (label_sep a \<noteq> [] \<longrightarrow> (\<exists>m. res = Inr m))"
proof (cases "parse_labels (Some (or_empty (py_or (r ''Labels'') (r ''labels'')))) (label_sep a)")
  case (Inl e)
  then have sep: "label_sep a = []"
    by (auto simp: parse_labels_def split: if_splits)
  from Inl have "map_row api a name r s = (Inl e, s\<lparr>out := out s @ []\<rparr>)"
    by (simp add: map_row_def Let_def)
  with sep show ?thesis by blast
next
  case (Inr labels)
  let ?target = "map_state (or_empty (py_or (r ''Status'') (r ''status'')))"
  let ?step = "if truthy ?target then resolve_state api a (or_empty ?target) s else (Inr None, s)"
  have "\<exists>sobj l1. ?step = (Inr sobj, s\<lparr>out := out s @ l1\<rparr>)"
  proof (cases "truthy ?target")
    case True
    with resolve_state_simulated [OF sim, of api "or_empty ?target" s] show ?thesis by simp
  next
    case False
    then have "?step = (Inr None, s\<lparr>out := out s @ []\<rparr>)" by simp
    then show ?thesis by blast
  qed
  then obtain sobj l1 where st: "?step = (Inr sobj, s\<lparr>out := out s @ l1\<rparr>)" by blast
  let ?s1 = "s\<lparr>out := out s @ l1\<rparr>"
  from resolve_labels_simulated [OF sim, of api labels "[]" "[]" ?s1]
  obtain ids objs' l2 where
    lb: "resolve_labels api a labels [] [] ?s1 = (Inr (ids, objs'), ?s1\<lparr>out := out ?s1 @ l2\<rparr>)"
    by blast
  have e: "?s1\<lparr>out := out ?s1 @ l2\<rparr> = s\<lparr>out := out s @ (l1 @ l2)\<rparr>" by simp
  from Inr st lb have "\<exists>m. map_row api a name r s = (Inr m, ?s1\<lparr>out := out ?s1 @ l2\<rparr>)"
    by (simp add: map_row_def Let_def)
  with e show ?thesis by metis
qed

lemma process_row_simulated:
  assumes sim: "dry_run a \<or> offline a"
  shows "\<exists>err s'. process_row api a i r s = (err, s')
           \<and> net s' = net s \<and> failures s' = failures s
           \<and> (label_sep a \<noteq> [] \<longrightarrow> err = None
                \<and> created_count s' = created_count s
                     + (if py_strip (or_empty (r ''Summary'')) \<noteq> [] then 1 else 0)
                \<and> skipped s' = skipped s
                     + (if py_strip (or_empty (r ''Summary'')) \<noteq> [] then 0 else 1))"
proof (cases "py_strip (or_empty (r ''Summary'')) = []")
  case True
  then show ?thesis by (simp add: process_row_def)
next
  case False
  let ?name = "py_strip (or_empty (r ''Summary''))"
  from map_row_simulated [OF sim, of api ?name r s]
  obtain res lines where m: "map_row api a ?name r s = (res, s\<lparr>out := out s @ lines\<rparr>)"
    and ok: "label_sep a \<noteq> [] \<longrightarrow> (\<exists>m. res = Inr m)" by blast
  show ?thesis
  proof (cases res)
    case (Inl e)
    with ok have "label_sep a = []" by auto
    with False m Inl show ?thesis by (simp add: process_row_def)
  next
    case (Inr mr)
    with False m sim show ?thesis by (auto simp: process_row_def)
  qed
qed

lemma run_rows_simulated:
  assumes sim: "dry_run a \<or> offline a"
  shows "\<exists>err s'. run_rows api a i rows s = (err, s')
           \<and> net s' = net s \<and> failures s' = failures s
           \<and> (label_sep a \<noteq> [] \<longrightarrow> err = None
                \<and> created_count s' = created_count s
                     + length (filter (\<lambda>r. py_strip (or_empty (r ''Summary'')) \<noteq> []) rows)
                \<and> skipped s' = skipped s
                     + length (filter (\<lambda>r. py_strip (or_empty (r ''Summary'')) = []) rows))"
proof (induction rows arbitrary: i s)
  case Nil
  show ?case by simp
next
  case (Cons r rows)
  from process_row_simulated [OF sim, of api i r s]
  obtain err s1 where p: "process_row api a i r s = (err, s1)"
    and f: "net s1 = net s" "failures s1 = failures s"
    and c: "label_sep a \<noteq> [] \<longrightarrow> err = None
                \<and> created_count s1 = created_count s
                     + (if py_strip (or_empty (r ''Summary'')) \<noteq> [] then 1 else 0)
                \<and> skipped s1 = skipped s
                     + (if py_strip (or_empty (r ''Summary'')) \<noteq> [] then 0 else 1)"
    by blast
  show ?case
  proof (cases err)
    case (Some e)
    with c have "label_sep a = []" by auto
    with p Some f show ?thesis by simp
  next
    case None
    from Cons.IH [of "Suc i" s1]
    obtain err2 s2 where q: "run_rows api a (Suc i) rows s1 = (err2, s2)"
      and f2: "net s2 = net s1" "failures s2 = failures s1"
      and c2: "label_sep a \<noteq> [] \<longrightarrow> err2 = None
                \<and> created_count s2 = created_count s1
                     + length (filter (\<lambda>r. py_strip (or_empty (r ''Summary'')) \<noteq> []) rows)
                \<and> skipped s2 = skipped s1
                     + length (filter (\<lambda>r. py_strip (or_empty (r ''Summary'')) = []) rows)"
      by blast
    from p None q have "run_rows api a i (r # rows) s = (err2, s2)" by simp
    with f f2 c c2 show ?thesis by auto
  qed
qed

lemma is_post_get [simp]: "\<not> is_post GetLabels" "\<not> is_post GetStates" "\<not> is_post GetProjects"
  by (simp_all add: is_post_def)

lemma main_simulated_trace:
  assumes sim: "dry_run a \<or> offline a"
  shows "set (trace (net (snd (main api a fieldnames rows w)))) \<subseteq> {GetLabels, GetStates}"
proof -
  obtain r1 w1 where l: "labels_endpoint api w = (r1, w1)" by (cases "labels_endpoint api w")
  obtain r2 w2 where st: "states_endpoint api w1 = (r2, w2)" by (cases "states_endpoint api w1")
  show ?thesis
  proof (cases r1)
    case (Inl e)
    with l show ?thesis by (simp add: main_def list_labels_def request_def)
  next
    case ls: (Inr labels)
    show ?thesis
    proof (cases r2)
      case (Inl e)
      with l ls st show ?thesis
        by (simp add: main_def list_labels_def list_states_def request_def)
    next
      case ss: (Inr states)
      let ?s1 = "\<lparr>net = \<lparr>world = w2, trace = [GetLabels, GetStates]\<rparr>,
                  label_cache = by_name labels, state_cache = by_name states,
                  created_count = 0, skipped = 0, failures = 0,
                  out = [WarnProjectResolution UnboundLocalError]\<rparr>"
      from run_rows_simulated [OF sim, of api 1 rows ?s1]
      obtain err s2 where rr: "run_rows api a 1 rows ?s1 = (err, s2)" and n: "net s2 = net ?s1"
        by blast
      from l ls st ss rr n show ?thesis
        by (cases fieldnames; cases err)
          (auto simp: main_def list_labels_def list_states_def request_def Let_def)
    qed
  qed
qed

lemma dry_run_trace_example:
  "trace (net (snd (main (mock_api (\<lambda>w. ''id-1'') (\<lambda>p. True) (\<lambda>p. True))
         \<lparr>label_sep = '';'', dry_run = True, offline = False,
          no_create_labels = False, no_create_states = False\<rparr>
         (Some [''Summary'', ''Status'', ''Labels''])
         [[''Summary'' \<mapsto> ''Fix login'', ''Status'' \<mapsto> ''In Progress'',
           ''Labels'' \<mapsto> ''auth;urgent''], Map.empty]
         \<lparr>mock_labels = [], mock_states = []\<rparr>))) = [GetLabels, GetStates]"
  by code_simp

text \<open>
  C5. In a dry-run or offline run no creation request is ever issued, neither for a label
  or a state nor for an issue: every request of the whole run is a listing. With creation
  enabled, a state or label that is absent from its cache is replaced by a placeholder
  that carries the name and no identifier, and the intended creation is only printed.
\<close>

theorem simulate_issues_no_create:
  assumes sim: "dry_run a \<or> offline a"
  shows "(\<forall>c \<in> set (trace (net (snd (main api a fieldnames rows w)))). \<not> is_post c)
         \<and> (dict_get (state_cache s) (py_lower (py_strip target)) = None \<and> \<not> no_create_states a
              \<longrightarrow> resolve_state api a target s
                    = (Inr (Some \<lparr>ent_name = Some target, ent_id = None\<rparr>),
                       s\<lparr>out := out s @ [DryState target]\<rparr>))
         \<and> (dict_get (label_cache s) (py_lower (py_strip lbl)) = None \<and> \<not> no_create_labels a
              \<longrightarrow> resolve_label api a lbl s
                    = (Inr (Some \<lparr>ent_name = Some lbl, ent_id = None\<rparr>),
                       s\<lparr>out := out s @ [DryLabel lbl]\<rparr>))"
proof (intro conjI ballI impI)
  fix c assume "c \<in> set (trace (net (snd (main api a fieldnames rows w))))"
  with main_simulated_trace [OF sim, of api fieldnames rows w]
  have "c = GetLabels \<or> c = GetStates" by auto
  then show "\<not> is_post c" by auto
next
  assume "dict_get (state_cache s) (py_lower (py_strip target)) = None \<and> \<not> no_create_states a"
  with sim show "resolve_state api a target s
                    = (Inr (Some \<lparr>ent_name = Some target, ent_id = None\<rparr>),
                       s\<lparr>out := out s @ [DryState target]\<rparr>)"
    by (simp add: resolve_state_def Let_def)
next
  assume "dict_get (label_cache s) (py_lower (py_strip lbl)) = None \<and> \<not> no_create_labels a"
  with sim show "resolve_label api a lbl s
                    = (Inr (Some \<lparr>ent_name = Some lbl, ent_id = None\<rparr>),
                       s\<lparr>out := out s @ [DryLabel lbl]\<rparr>)"
    by (simp add: resolve_label_def Let_def)
qed

theorem simulate_issues_no_create_witness:
  "(dry_run \<lparr>label_sep = '';'', dry_run = True, offline = False,
             no_create_labels = False, no_create_states = False\<rparr>
    \<or> offline \<lparr>label_sep = '';'', dry_run = True, offline = False,
                no_create_labels = False, no_create_states = False\<rparr>)
   \<and> GetLabels \<in> set (trace (net (snd (main (mock_api (\<lambda>w. ''id-1'') (\<lambda>p. True) (\<lambda>p. True))
         \<lparr>label_sep = '';'', dry_run = True, offline = False,
          no_create_labels = False, no_create_states = False\<rparr>
         (Some [''Summary'', ''Status'', ''Labels''])
         [[''Summary'' \<mapsto> ''Fix login'', ''Status'' \<mapsto> ''In Progress'',
           ''Labels'' \<mapsto> ''auth;urgent''], Map.empty]
         \<lparr>mock_labels = [], mock_states = []\<rparr>))))
   \<and> \<not> is_post GetLabels
   \<and> resolve_state (mock_api (\<lambda>w. ''id-1'') (\<lambda>p. True) (\<lambda>p. True))
         \<lparr>label_sep = '';'', dry_run = True, offline = False,
          no_create_labels = False, no_create_states = False\<rparr>
         ''Started''
         \<lparr>net = \<lparr>world = \<lparr>mock_labels = [], mock_states = []\<rparr>, trace = []\<rparr>,
          label_cache = [], state_cache = [],
          created_count = 0, skipped = 0, failures = 0, out = []\<rparr>
       = (Inr (Some \<lparr>ent_name = Some ''Started'', ent_id = None\<rparr>),
          \<lparr>net = \<lparr>world = \<lparr>mock_labels = [], mock_states = []\<rparr>, trace = []\<rparr>,
           label_cache = [], state_cache = [],
           created_count = 0, skipped = 0, failures = 0, out = [DryState ''Started'']\<rparr>)
   \<and> resolve_label (mock_api (\<lambda>w. ''id-1'') (\<lambda>p. True) (\<lambda>p. True))
         \<lparr>label_sep = '';'', dry_run = True, offline = False,
          no_create_labels = False, no_create_states = False\<rparr>
         ''auth''
         \<lparr>net = \<lparr>world = \<lparr>mock_labels = [], mock_states = []\<rparr>, trace = []\<rparr>,
          label_cache = [], state_cache = [],
          created_count = 0, skipped = 0, failures = 0, out = []\<rparr>
       = (Inr (Some \<lparr>ent_name = Some ''auth'', ent_id = None\<rparr>),
          \<lparr>net = \<lparr>world = \<lparr>mock_labels = [], mock_states = []\<rparr>, trace = []\<rparr>,
           label_cache = [], state_cache = [],
           created_count = 0, skipped = 0, failures = 0, out = [DryLabel ''auth'']\<rparr>)"
proof -
  let ?a = "\<lparr>label_sep = '';'', dry_run = True, offline = False,
             no_create_labels = False, no_create_states = False\<rparr>"
  let ?s = "\<lparr>net = \<lparr>world = \<lparr>mock_labels = [], mock_states = []\<rparr>, trace = []\<rparr>,
             label_cache = [], state_cache = [],
             created_count = 0, skipped = 0, failures = 0, out = []\<rparr>"
  have sim: "dry_run ?a \<or> offline ?a" by simp
  have cs: "dict_get (state_cache ?s) (py_lower (py_strip ''Started'')) = None \<and> \<not> no_create_states ?a"
    by (simp add: dict_get_def)
  have cl: "dict_get (label_cache ?s) (py_lower (py_strip ''auth'')) = None \<and> \<not> no_create_labels ?a"
    by (simp add: dict_get_def)
  have m: "GetLabels \<in> set [GetLabels, GetStates]" by simp
  note t = simulate_issues_no_create [OF sim, of "mock_api (\<lambda>w. ''id-1'') (\<lambda>p. True) (\<lambda>p. True)"
      "Some [''Summary'', ''Status'', ''Labels'']"
      "[[''Summary'' \<mapsto> ''Fix login'', ''Status'' \<mapsto> ''In Progress'',
         ''Labels'' \<mapsto> ''auth;urgent''], Map.empty]"
      "\<lparr>mock_labels = [], mock_states = []\<rparr>" ?s "''Started''" "''auth''"]
  from t m have p: "\<not> is_post GetLabels" unfolding dry_run_trace_example by blast
  from t cs have rs: "resolve_state (mock_api (\<lambda>w. ''id-1'') (\<lambda>p. True) (\<lambda>p. True)) ?a ''Started'' ?s
       = (Inr (Some \<lparr>ent_name = Some ''Started'', ent_id = None\<rparr>),
          ?s\<lparr>out := out ?s @ [DryState ''Started'']\<rparr>)" by blast
  from t cl have rl: "resolve_label (mock_api (\<lambda>w. ''id-1'') (\<lambda>p. True) (\<lambda>p. True)) ?a ''auth'' ?s
       = (Inr (Some \<lparr>ent_name = Some ''auth'', ent_id = None\<rparr>),
          ?s\<lparr>out := out ?s @ [DryLabel ''auth'']\<rparr>)" by blast
  from sim m p rs rl show ?thesis unfolding dry_run_trace_example by simp
qed

text \<open>
  C10. In a dry-run or offline run the created counter is incremented once for every row
  that has a name, although no issue is posted: the run requests the two listings only,
  and its summary line reports the simulated rows as created, the rows without a name as
  skipped and no failure. (The label separator is not empty; with an empty one
  \<open>str.split\<close> raises on the first row that has labels.)
\<close>

theorem simulate_counts_rows_as_created:
  assumes sim: "dry_run a \<or> offline a"
    and sep: "label_sep a \<noteq> []"
    and l: "labels_endpoint api w = (Inr labels, w1)"
    and st: "states_endpoint api w1 = (Inr states, w2)"
    and col: "''Summary'' \<in> set cols"
  shows "\<exists>s'. main api a (Some cols) rows w = (None, s')
           \<and> created_count s' = length (filter (\<lambda>r. py_strip (or_empty (r ''Summary'')) \<noteq> []) rows)
           \<and> skipped s' = length (filter (\<lambda>r. py_strip (or_empty (r ''Summary'')) = []) rows)
           \<and> failures s' = 0
           \<and> last (out s') = Done (created_count s') (skipped s') (failures s')
           \<and> trace (net s') = [GetLabels, GetStates]"
proof -
  let ?s1 = "\<lparr>net = \<lparr>world = w2, trace = [GetLabels, GetStates]\<rparr>,
              label_cache = by_name labels, state_cache = by_name states,
              created_count = 0, skipped = 0, failures = 0,
              out = [WarnProjectResolution UnboundLocalError]\<rparr>"
  from run_rows_simulated [OF sim, of api 1 rows ?s1] sep
  obtain s2 where rr: "run_rows api a 1 rows ?s1 = (None, s2)"
    and n: "net s2 = net ?s1" and f: "failures s2 = failures ?s1"
    and c: "created_count s2 = created_count ?s1
              + length (filter (\<lambda>r. py_strip (or_empty (r ''Summary'')) \<noteq> []) rows)"
    and k: "skipped s2 = skipped ?s1
              + length (filter (\<lambda>r. py_strip (or_empty (r ''Summary'')) = []) rows)"
    by blast
  from l st col rr have
    "main api a (Some cols) rows w
       = (None, s2\<lparr>out := out s2 @ [Done (created_count s2) (skipped s2) (failures s2)]\<rparr>)"
    by (simp add: main_def list_labels_def list_states_def request_def Let_def)
  with n f c k show ?thesis by simp
qed

theorem simulate_counts_rows_as_created_witness:
  "\<exists>s'. main (mock_api (\<lambda>w. ''id-1'') (\<lambda>p. True) (\<lambda>p. True))
         \<lparr>label_sep = '';'', dry_run = False, offline = True,
          no_create_labels = False, no_create_states = False\<rparr>
         (Some [''Summary'', ''Status'', ''Labels''])
         [[''Summary'' \<mapsto> ''Fix login'', ''Status'' \<mapsto> ''In Progress'',
           ''Labels'' \<mapsto> ''auth;urgent''], Map.empty, [''Summary'' \<mapsto> ''Add logout'']]
         \<lparr>mock_labels = [], mock_states = []\<rparr> = (None, s')
       \<and> created_count s' = 2 \<and> skipped s' = 1 \<and> failures s' = 0
       \<and> last (out s') = Done 2 1 0
       \<and> trace (net s') = [GetLabels, GetStates]"
proof -
  let ?a = "\<lparr>label_sep = '';'', dry_run = False, offline = True,
             no_create_labels = False, no_create_states = False\<rparr>"
  let ?M = "mock_api (\<lambda>w. ''id-1'') (\<lambda>p. True) (\<lambda>p. True)"
  let ?w = "\<lparr>mock_labels = [], mock_states = []\<rparr>"
  let ?rows = "[[''Summary'' \<mapsto> ''Fix login'', ''Status'' \<mapsto> ''In Progress'',
           ''Labels'' \<mapsto> ''auth;urgent''], Map.empty, [''Summary'' \<mapsto> ''Add logout'']]"
  have sim: "dry_run ?a \<or> offline ?a" by simp
  have sep: "label_sep ?a \<noteq> []" by simp
  have l: "labels_endpoint ?M ?w = (Inr [], ?w)" by (simp add: mock_api_def)
  have st: "states_endpoint ?M ?w = (Inr [], ?w)" by (simp add: mock_api_def)
  have col: "''Summary'' \<in> set [''Summary'', ''Status'', ''Labels'']" by simp
  have c: "length (filter (\<lambda>r. py_strip (or_empty (r ''Summary'')) \<noteq> []) ?rows) = 2"
    by (simp add: py_strip_def py_isspace_def or_empty_def)
  have k: "length (filter (\<lambda>r. py_strip (or_empty (r ''Summary'')) = []) ?rows) = 1"
    by (simp add: py_strip_def py_isspace_def or_empty_def)
  from simulate_counts_rows_as_created [OF sim sep l st col, of ?rows]
  show ?thesis unfolding c k by auto
qed

section \<open>The payload of a row\<close>

lemma resolve_labels_collects:
  "resolve_labels api a lbls ids0 objs0 s = (Inr (ids, objs'), s') \<Longrightarrow>
     \<exists>new. objs' = objs0 @ new \<and> length new = length lbls \<and> ids = ids0 @ List.map_filter attachable_id new"
proof (induction lbls arbitrary: ids0 objs0 s)
  case Nil
  then show ?case by simp
next
  case (Cons lbl lbls)
  obtain r1 s1 where r: "resolve_label api a lbl s = (r1, s1)" by (cases "resolve_label api a lbl s")
  show ?case
  proof (cases r1)
    case (Inl e)
    with r Cons.prems show ?thesis by simp
  next
    case (Inr obj)
    let ?ids1 = "case attachable_id obj of Some i \<Rightarrow> ids0 @ [i] | None \<Rightarrow> ids0"
    from r Inr Cons.prems
    have "resolve_labels api a lbls ?ids1 (objs0 @ [obj]) s1 = (Inr (ids, objs'), s')" by simp
    from Cons.IH [OF this] obtain new where
      n: "objs' = (objs0 @ [obj]) @ new" "length new = length lbls" "ids = ?ids1 @ List.map_filter attachable_id new"
      by blast
    have "ids = ids0 @ List.map_filter attachable_id (obj # new)"
      using n(3) by (cases "attachable_id obj") simp_all
    with n(1,2) have "objs' = objs0 @ (obj # new) \<and> length (obj # new) = length (lbl # lbls)
        \<and> ids = ids0 @ List.map_filter attachable_id (obj # new)" by simp
    then show ?thesis by blast
  qed
qed

lemma attachable_id_Some:
  "attachable_id obj = Some i \<Longrightarrow> \<exists>e. obj = Some e \<and> ent_id e = Some i \<and> i \<noteq> []"
  by (cases obj) (auto simp: attachable_id_def truthy_def split: if_splits option.splits)

lemma attached_ids_nonempty:
  "List.map_filter attachable_id objs \<noteq> [] \<Longrightarrow>
     \<exists>e i. Some e \<in> set objs \<and> ent_id e = Some i \<and> i \<noteq> []"
proof -
  assume "List.map_filter attachable_id objs \<noteq> []"
  then obtain obj where o: "obj \<in> set objs" and "attachable_id obj \<noteq> None"
    by (auto simp: List.map_filter_def filter_empty_conv)
  then obtain i where "attachable_id obj = Some i" by auto
  from attachable_id_Some [OF this] o show ?thesis by blast
qed

lemma map_priority_truthy: "map_priority p = Some v \<Longrightarrow> v \<noteq> []"
  by (auto simp: map_priority_def DEFAULT_PRIORITY_MAP_def split: if_splits)

lemma map_row_fields:
  assumes "map_row api a name r s = (Inr m, s')"
  shows "ip_name (payload m) = name"
    and "ip_description (payload m)
           = (if or_empty (r ''Description'') \<noteq> [] then Some (or_empty (r ''Description'')) else None)"
    and "ip_priority (payload m)
           = map_priority (or_empty (py_or (r ''Priority'') (r ''priority'')))"
    and "ip_state_id (payload m) = attachable_id (state_obj m)"
    and "ip_label_ids (payload m)
           = (if List.map_filter attachable_id (label_objs m) \<noteq> [] then Some (List.map_filter attachable_id (label_objs m)) else None)"
    and "\<exists>labels. parse_labels (Some (or_empty (py_or (r ''Labels'') (r ''labels'')))) (label_sep a)
                    = Inr labels \<and> length (label_objs m) = length labels"
proof -
  let ?pr = "map_priority (or_empty (py_or (r ''Priority'') (r ''priority'')))"
  have pr: "(if truthy ?pr then ?pr else None) = ?pr"
    by (cases ?pr) (auto simp: truthy_def dest: map_priority_truthy)
  let ?target = "map_state (or_empty (py_or (r ''Status'') (r ''status'')))"
  let ?step = "if truthy ?target then resolve_state api a (or_empty ?target) s else (Inr None, s)"
  from assms obtain labels where
    pl: "parse_labels (Some (or_empty (py_or (r ''Labels'') (r ''labels'')))) (label_sep a) = Inr labels"
    by (auto simp: map_row_def Let_def split: sum.splits)
  from assms pl obtain sobj s1 where st: "?step = (Inr sobj, s1)"
    by (auto simp: map_row_def Let_def split: sum.splits prod.splits if_splits)
  from assms pl st obtain ids lobjs where
    rl: "resolve_labels api a labels [] [] s1 = (Inr (ids, lobjs), s')"
    and m: "m = \<lparr>payload =
                  \<lparr>ip_name = name,
                   ip_description =
                     (if or_empty (r ''Description'') \<noteq> [] then Some (or_empty (r ''Description''))
                      else None),
                   ip_priority = (if truthy ?pr then ?pr else None),
                   ip_state_id = attachable_id sobj,
                   ip_label_ids = (if ids \<noteq> [] then Some ids else None)\<rparr>,
                state_obj = sobj, label_objs = lobjs\<rparr>"
    by (auto simp: map_row_def Let_def split: sum.splits prod.splits)
  from resolve_labels_collects [OF rl]
  have c: "length lobjs = length labels" "ids = List.map_filter attachable_id lobjs" by auto
  show "ip_name (payload m) = name" using m by simp
  show "ip_description (payload m)
           = (if or_empty (r ''Description'') \<noteq> [] then Some (or_empty (r ''Description'')) else None)"
    using m by simp
  show "ip_priority (payload m) = ?pr" using m pr by simp
  show "ip_state_id (payload m) = attachable_id (state_obj m)" using m by simp
  show "ip_label_ids (payload m)
           = (if List.map_filter attachable_id (label_objs m) \<noteq> [] then Some (List.map_filter attachable_id (label_objs m)) else None)"
    using m c by simp
  show "\<exists>labels. parse_labels (Some (or_empty (py_or (r ''Labels'') (r ''labels'')))) (label_sep a)
                    = Inr labels \<and> length (label_objs m) = length labels"
    using m c pl by simp
qed

lemma process_row_mapped:
  assumes n: "py_strip (or_empty (r ''Summary'')) \<noteq> []"
    and m: "map_row api a (py_strip (or_empty (r ''Summary''))) r s = (Inr m, s1)"
  shows "fst (process_row api a i r s) = None"
    and "dry_run a \<or> offline a \<Longrightarrow>
           process_row api a i r s
             = (None, s1\<lparr>created_count := created_count s1 + 1,
                         out := out s1 @ [DryRow i (payload m)]\<rparr>)"
    and "\<not> (dry_run a \<or> offline a) \<Longrightarrow>
           trace (net (snd (process_row api a i r s)))
             = trace (net s1) @ [PostIssue (payload m)]"
  using n m
  by (auto simp: process_row_def create_issue_def request_def Let_def split: prod.splits sum.splits)

lemma map_row_example:
  "map_row (mock_api (\<lambda>w. ''s-1'') (\<lambda>p. True) (\<lambda>p. True))
         \<lparr>label_sep = '';'', dry_run = False, offline = False,
          no_create_labels = True, no_create_states = False\<rparr>
         (py_strip (or_empty ([''Summary'' \<mapsto> ''Fix login'', ''Description'' \<mapsto> ''Cannot log in'',
            ''Status'' \<mapsto> ''In Progress'', ''Priority'' \<mapsto> ''High'',
            ''Labels'' \<mapsto> ''auth;urgent''] ''Summary'')))
         [''Summary'' \<mapsto> ''Fix login'', ''Description'' \<mapsto> ''Cannot log in'',
          ''Status'' \<mapsto> ''In Progress'', ''Priority'' \<mapsto> ''High'',
          ''Labels'' \<mapsto> ''auth;urgent'']
         \<lparr>net = \<lparr>world = \<lparr>mock_labels = [\<lparr>ent_name = Some ''Auth'', ent_id = Some ''l-1''\<rparr>],
                               mock_states = []\<rparr>, trace = []\<rparr>,
          label_cache = [(''auth'', \<lparr>ent_name = Some ''Auth'', ent_id = Some ''l-1''\<rparr>)],
          state_cache = [],
          created_count = 0, skipped = 0, failures = 0, out = []\<rparr>
     = (Inr \<lparr>payload =
              \<lparr>ip_name = ''Fix login'', ip_description = Some ''Cannot log in'',
               ip_priority = Some ''high'', ip_state_id = Some ''s-1'',
               ip_label_ids = Some [''l-1'']\<rparr>,
            state_obj = Some \<lparr>ent_name = Some ''Started'', ent_id = Some ''s-1''\<rparr>,
            label_objs = [Some \<lparr>ent_name = Some ''Auth'', ent_id = Some ''l-1''\<rparr>, None]\<rparr>,
        \<lparr>net =
           \<lparr>world =
              \<lparr>mock_labels = [\<lparr>ent_name = Some ''Auth'', ent_id = Some ''l-1''\<rparr>],
               mock_states = [\<lparr>ent_name = Some ''Started'', ent_id = Some ''s-1''\<rparr>]\<rparr>,
            trace =
              [GetStates,
               PostState \<lparr>sp_name = ''Started'', sp_color = ''#9ca3af'', sp_group = None\<rparr>,
               GetStates]\<rparr>,
         label_cache = [(''auth'', \<lparr>ent_name = Some ''Auth'', ent_id = Some ''l-1''\<rparr>)],
         state_cache = [(''started'', \<lparr>ent_name = Some ''Started'', ent_id = Some ''s-1''\<rparr>)],
         created_count = 0, skipped = 0, failures = 0, out = []\<rparr>)"
  by code_simp

lemma mapped_payload_fields:
  assumes n: "py_strip (or_empty (r ''Summary'')) \<noteq> []"
    and m: "map_row api a (py_strip (or_empty (r ''Summary''))) r s = (Inr m, s1)"
  shows "ip_name (payload m) = py_strip (or_empty (r ''Summary''))
         \<and> (ip_description (payload m) \<noteq> None \<longrightarrow> or_empty (r ''Description'') \<noteq> [])
         \<and> (ip_priority (payload m) \<noteq> None \<longrightarrow>
               map_priority (or_empty (py_or (r ''Priority'') (r ''priority''))) \<noteq> None)
         \<and> (ip_state_id (payload m) \<noteq> None \<longrightarrow>
               (\<exists>e. state_obj m = Some e \<and> ent_id e \<noteq> None \<and> ip_state_id (payload m) = ent_id e))
         \<and> (ip_label_ids (payload m) \<noteq> None \<longrightarrow>
               (\<exists>e. Some e \<in> set (label_objs m) \<and> ent_id e \<noteq> None))
         \<and> ip_label_ids (payload m)
               = (if List.map_filter attachable_id (label_objs m) \<noteq> []
                  then Some (List.map_filter attachable_id (label_objs m)) else None)
         \<and> (\<exists>labels. parse_labels (Some (or_empty (py_or (r ''Labels'') (r ''labels''))))
                        (label_sep a) = Inr labels
                      \<and> length (label_objs m) = length labels)
         \<and> fst (process_row api a i r s) = None
         \<and> (dry_run a \<or> offline a \<longrightarrow>
               process_row api a i r s
                 = (None, s1\<lparr>created_count := created_count s1 + 1,
                             out := out s1 @ [DryRow i (payload m)]\<rparr>))
         \<and> (\<not> (dry_run a \<or> offline a) \<longrightarrow>
               trace (net (snd (process_row api a i r s)))
                 = trace (net s1) @ [PostIssue (payload m)])"
proof (intro conjI impI)
  note f = map_row_fields [OF m]
  show "ip_name (payload m) = py_strip (or_empty (r ''Summary''))" by (rule f(1))
  show "or_empty (r ''Description'') \<noteq> []" if "ip_description (payload m) \<noteq> None"
    using that f(2) by (simp split: if_splits)
  show "map_priority (or_empty (py_or (r ''Priority'') (r ''priority''))) \<noteq> None"
    if "ip_priority (payload m) \<noteq> None"
    using that f(3) by simp
  show "\<exists>e. state_obj m = Some e \<and> ent_id e \<noteq> None \<and> ip_state_id (payload m) = ent_id e"
    if "ip_state_id (payload m) \<noteq> None"
  proof -
    from that f(4) obtain i where "attachable_id (state_obj m) = Some i" by auto
    from attachable_id_Some [OF this] f(4) \<open>attachable_id (state_obj m) = Some i\<close>
    show ?thesis by auto
  qed
  show "\<exists>e. Some e \<in> set (label_objs m) \<and> ent_id e \<noteq> None"
    if "ip_label_ids (payload m) \<noteq> None"
  proof -
    from that f(5) have "List.map_filter attachable_id (label_objs m) \<noteq> []"
      by (simp split: if_splits)
    from attached_ids_nonempty [OF this] show ?thesis by auto
  qed
  show "ip_label_ids (payload m)
               = (if List.map_filter attachable_id (label_objs m) \<noteq> []
                  then Some (List.map_filter attachable_id (label_objs m)) else None)"
    by (rule f(5))
  show "\<exists>labels. parse_labels (Some (or_empty (py_or (r ''Labels'') (r ''labels''))))
                        (label_sep a) = Inr labels
                      \<and> length (label_objs m) = length labels"
    by (rule f(6))
  show "fst (process_row api a i r s) = None" by (rule process_row_mapped(1) [OF n m])
  show "process_row api a i r s
                 = (None, s1\<lparr>created_count := created_count s1 + 1,
                             out := out s1 @ [DryRow i (payload m)]\<rparr>)"
    if "dry_run a \<or> offline a"
    using that by (rule process_row_mapped(2) [OF n m])
  show "trace (net (snd (process_row api a i r s)))
                 = trace (net s1) @ [PostIssue (payload m)]"
    if "\<not> (dry_run a \<or> offline a)"
    using that by (rule process_row_mapped(3) [OF n m])
qed

lemma resolve_label_no_request:
  assumes "no_create_labels a \<or> dry_run a \<or> offline a"
  shows "\<exists>obj s'. resolve_label api a lbl s = (Inr obj, s') \<and> net s' = net s"
proof (cases "dry_run a \<or> offline a")
  case True
  from resolve_label_simulated [OF True, of api lbl s] show ?thesis by auto
next
  case False
  with assms have "no_create_labels a" by simp
  then show ?thesis by (simp add: resolve_label_def Let_def)
qed

lemma resolve_labels_no_request:
  assumes c: "no_create_labels a \<or> dry_run a \<or> offline a"
  shows "\<exists>ids objs' s'. resolve_labels api a lbls ids0 objs0 s = (Inr (ids, objs'), s')
           \<and> net s' = net s"
proof (induction lbls arbitrary: ids0 objs0 s)
  case Nil
  show ?case by simp
next
  case (Cons lbl lbls)
  from resolve_label_no_request [OF c, of api lbl s]
  obtain obj s1 where r: "resolve_label api a lbl s = (Inr obj, s1)" and n: "net s1 = net s"
    by blast
  from Cons.IH [of "case attachable_id obj of Some i \<Rightarrow> ids0 @ [i] | None \<Rightarrow> ids0"
      "objs0 @ [obj]" s1]
  obtain ids objs' s' where
    "resolve_labels api a lbls (case attachable_id obj of Some i \<Rightarrow> ids0 @ [i] | None \<Rightarrow> ids0)
       (objs0 @ [obj]) s1 = (Inr (ids, objs'), s')" and "net s' = net s1"
    by blast
  with r n show ?case by simp
qed

lemma resolve_state_no_request:
  assumes "no_create_states a \<or> dry_run a \<or> offline a
           \<or> dict_get (state_cache s) (py_lower (py_strip t)) \<noteq> None"
  shows "\<exists>obj s'. resolve_state api a t s = (Inr obj, s') \<and> net s' = net s"
proof (cases "dry_run a \<or> offline a")
  case True
  from resolve_state_simulated [OF True, of api t s] show ?thesis by auto
next
  case False
  with assms have "no_create_states a \<or> dict_get (state_cache s) (py_lower (py_strip t)) \<noteq> None"
    by blast
  then show ?thesis by (auto simp: resolve_state_def Let_def)
qed

lemma map_row_no_request:
  assumes sep: "label_sep a \<noteq> []"
    and cl: "no_create_labels a \<or> dry_run a \<or> offline a"
    and cs: "no_create_states a \<or> dry_run a \<or> offline a
             \<or> \<not> truthy (map_state (or_empty (py_or (r ''Status'') (r ''status''))))
             \<or> dict_get (state_cache s)
                  (py_lower (py_strip (or_empty
                     (map_state (or_empty (py_or (r ''Status'') (r ''status''))))))) \<noteq> None"
  shows "\<exists>m s'. map_row api a name r s = (Inr m, s') \<and> net s' = net s"
proof -
  let ?target = "map_state (or_empty (py_or (r ''Status'') (r ''status'')))"
  let ?step = "if truthy ?target then resolve_state api a (or_empty ?target) s else (Inr None, s)"
  from sep have "\<exists>labels. parse_labels (Some (or_empty (py_or (r ''Labels'') (r ''labels''))))
                      (label_sep a) = Inr labels"
    by (simp add: parse_labels_def)
  then obtain labels where
    pl: "parse_labels (Some (or_empty (py_or (r ''Labels'') (r ''labels'')))) (label_sep a) = Inr labels"
    by blast
  have "\<exists>sobj s1. ?step = (Inr sobj, s1) \<and> net s1 = net s"
  proof (cases "truthy ?target")
    case True
    with cs have "no_create_states a \<or> dry_run a \<or> offline a
           \<or> dict_get (state_cache s) (py_lower (py_strip (or_empty ?target))) \<noteq> None" by blast
    from resolve_state_no_request [OF this, of api] True show ?thesis by simp
  next
    case False
    then show ?thesis by simp
  qed
  then obtain sobj s1 where st: "?step = (Inr sobj, s1)" and n1: "net s1 = net s" by blast
  from resolve_labels_no_request [OF cl, of api labels "[]" "[]" s1]
  obtain ids lobjs s2 where rl: "resolve_labels api a labels [] [] s1 = (Inr (ids, lobjs), s2)"
    and n2: "net s2 = net s1" by blast
  from pl st rl have "\<exists>m. map_row api a name r s = (Inr m, s2)"
    by (simp add: map_row_def Let_def)
  with n1 n2 show ?thesis by auto
qed

lemma resolve_label_live:
  assumes "\<not> no_create_labels a" and "\<not> (dry_run a \<or> offline a)"
    and "dict_get (label_cache s) (py_lower (py_strip lbl)) = None"
  shows "ensure_label api lbl (net s) = (Inl e, n1) \<Longrightarrow>
           resolve_label api a lbl s = (Inl e, s\<lparr>net := n1\<rparr>)"
    and "ensure_label api lbl (net s) = (Inr created, n1) \<Longrightarrow> list_labels api n1 = (Inl e, n2) \<Longrightarrow>
           resolve_label api a lbl s = (Inl e, s\<lparr>net := n2\<rparr>)"
    and "ensure_label api lbl (net s) = (Inr created, n1) \<Longrightarrow> list_labels api n1 = (Inr fresh, n2) \<Longrightarrow>
           resolve_label api a lbl s = (Inr (Some created), s\<lparr>net := n2, label_cache := fresh\<rparr>)"
  using assms by (simp_all add: resolve_label_def Let_def)

text \<open>
  C6, as the code has it. For every row with a non-empty name whose mapping returns, the
  payload carries that name; it has a description only if the source description is
  non-empty, a priority only if the source priority maps, a \<open>state_id\<close> only if the
  resolved state object has an identifier (which is the one attached), and \<open>label_ids\<close>
  only if some tag resolved to an object with an identifier. Every tag of the row is
  resolved to an object or to nothing; \<open>label_ids\<close> holds, in order, the identifiers of the
  tags that have one, and the others are dropped; this payload is the one printed in a dry
  run and posted in a live one.

  A tag left without an identifier does not block the row when label creation is disabled
  or the run is simulated: the loop over the tags then always returns and issues no
  request, and a row whose state needs no creation either is mapped and not aborted. In a
  live run with label creation enabled, a tag absent from the cache is created: when the
  creation and the listing after it succeed, the loop goes on with the created object,
  attaching its identifier if it has one; when the creation fails, the tag is not dropped:
  the loop raises that failure.
\<close>

theorem payload_fields_and_unresolved_tags:
  "(py_strip (or_empty (r ''Summary'')) \<noteq> []
      \<and> map_row api a (py_strip (or_empty (r ''Summary''))) r s = (Inr m, s1)
    \<longrightarrow> ip_name (payload m) = py_strip (or_empty (r ''Summary''))
         \<and> (ip_description (payload m) \<noteq> None \<longrightarrow> or_empty (r ''Description'') \<noteq> [])
         \<and> (ip_priority (payload m) \<noteq> None \<longrightarrow>
               map_priority (or_empty (py_or (r ''Priority'') (r ''priority''))) \<noteq> None)
         \<and> (ip_state_id (payload m) \<noteq> None \<longrightarrow>
               (\<exists>e. state_obj m = Some e \<and> ent_id e \<noteq> None \<and> ip_state_id (payload m) = ent_id e))
         \<and> (ip_label_ids (payload m) \<noteq> None \<longrightarrow>
               (\<exists>e. Some e \<in> set (label_objs m) \<and> ent_id e \<noteq> None))
         \<and> ip_label_ids (payload m)
               = (if List.map_filter attachable_id (label_objs m) \<noteq> []
                  then Some (List.map_filter attachable_id (label_objs m)) else None)
         \<and> (\<exists>labels. parse_labels (Some (or_empty (py_or (r ''Labels'') (r ''labels''))))
                        (label_sep a) = Inr labels
                      \<and> length (label_objs m) = length labels)
         \<and> (dry_run a \<or> offline a \<longrightarrow>
               process_row api a i r s
                 = (None, s1\<lparr>created_count := created_count s1 + 1,
                             out := out s1 @ [DryRow i (payload m)]\<rparr>))
         \<and> (\<not> (dry_run a \<or> offline a) \<longrightarrow>
               trace (net (snd (process_row api a i r s)))
                 = trace (net s1) @ [PostIssue (payload m)]))
   \<and> (no_create_labels a \<or> dry_run a \<or> offline a
    \<longrightarrow> (\<exists>label_ids objs s'.
           resolve_labels api a lbls acc_ids acc_objs s = (Inr (label_ids, objs), s') \<and> net s' = net s))
   \<and> (py_strip (or_empty (r ''Summary'')) \<noteq> [] \<and> label_sep a \<noteq> []
      \<and> (no_create_labels a \<or> dry_run a \<or> offline a)
      \<and> (no_create_states a \<or> dry_run a \<or> offline a
           \<or> \<not> truthy (map_state (or_empty (py_or (r ''Status'') (r ''status''))))
           \<or> dict_get (state_cache s)
                (py_lower (py_strip (or_empty
                   (map_state (or_empty (py_or (r ''Status'') (r ''status''))))))) \<noteq> None)
    \<longrightarrow> (\<exists>m' s'. map_row api a (py_strip (or_empty (r ''Summary''))) r s = (Inr m', s')
                  \<and> net s' = net s)
         \<and> fst (process_row api a i r s) = None)
   \<and> (\<not> no_create_labels a \<and> \<not> (dry_run a \<or> offline a)
      \<and> dict_get (label_cache s) (py_lower (py_strip lbl)) = None
      \<and> ensure_label api lbl (net s) = (Inr created, n1)
      \<and> list_labels api n1 = (Inr fresh, n2)
    \<longrightarrow> resolve_labels api a (lbl # lbls) acc_ids acc_objs s
          = resolve_labels api a lbls
              (case attachable_id (Some created) of Some i \<Rightarrow> acc_ids @ [i] | None \<Rightarrow> acc_ids)
              (acc_objs @ [Some created]) (s\<lparr>net := n2, label_cache := fresh\<rparr>))
   \<and> (\<not> no_create_labels a \<and> \<not> (dry_run a \<or> offline a)
      \<and> dict_get (label_cache s) (py_lower (py_strip lbl)) = None
      \<and> ensure_label api lbl (net s) = (Inl err, n1)
    \<longrightarrow> resolve_labels api a (lbl # lbls) acc_ids acc_objs s = (Inl err, s\<lparr>net := n1\<rparr>))"
proof (intro conjI)
  show "py_strip (or_empty (r ''Summary'')) \<noteq> []
      \<and> map_row api a (py_strip (or_empty (r ''Summary''))) r s = (Inr m, s1)
    \<longrightarrow> ip_name (payload m) = py_strip (or_empty (r ''Summary''))
         \<and> (ip_description (payload m) \<noteq> None \<longrightarrow> or_empty (r ''Description'') \<noteq> [])
         \<and> (ip_priority (payload m) \<noteq> None \<longrightarrow>
               map_priority (or_empty (py_or (r ''Priority'') (r ''priority''))) \<noteq> None)
         \<and> (ip_state_id (payload m) \<noteq> None \<longrightarrow>
               (\<exists>e. state_obj m = Some e \<and> ent_id e \<noteq> None \<and> ip_state_id (payload m) = ent_id e))
         \<and> (ip_label_ids (payload m) \<noteq> None \<longrightarrow>
               (\<exists>e. Some e \<in> set (label_objs m) \<and> ent_id e \<noteq> None))
         \<and> ip_label_ids (payload m)
               = (if List.map_filter attachable_id (label_objs m) \<noteq> []
                  then Some (List.map_filter attachable_id (label_objs m)) else None)
         \<and> (\<exists>labels. parse_labels (Some (or_empty (py_or (r ''Labels'') (r ''labels''))))
                        (label_sep a) = Inr labels
                      \<and> length (label_objs m) = length labels)
         \<and> (dry_run a \<or> offline a \<longrightarrow>
               process_row api a i r s
                 = (None, s1\<lparr>created_count := created_count s1 + 1,
                             out := out s1 @ [DryRow i (payload m)]\<rparr>))
         \<and> (\<not> (dry_run a \<or> offline a) \<longrightarrow>
               trace (net (snd (process_row api a i r s)))
                 = trace (net s1) @ [PostIssue (payload m)])"
  proof
    assume h: "py_strip (or_empty (r ''Summary'')) \<noteq> []
      \<and> map_row api a (py_strip (or_empty (r ''Summary''))) r s = (Inr m, s1)"
    from mapped_payload_fields [OF conjunct1 [OF h] conjunct2 [OF h], of i]
    show "ip_name (payload m) = py_strip (or_empty (r ''Summary''))
         \<and> (ip_description (payload m) \<noteq> None \<longrightarrow> or_empty (r ''Description'') \<noteq> [])
         \<and> (ip_priority (payload m) \<noteq> None \<longrightarrow>
               map_priority (or_empty (py_or (r ''Priority'') (r ''priority''))) \<noteq> None)
         \<and> (ip_state_id (payload m) \<noteq> None \<longrightarrow>
               (\<exists>e. state_obj m = Some e \<and> ent_id e \<noteq> None \<and> ip_state_id (payload m) = ent_id e))
         \<and> (ip_label_ids (payload m) \<noteq> None \<longrightarrow>
               (\<exists>e. Some e \<in> set (label_objs m) \<and> ent_id e \<noteq> None))
         \<and> ip_label_ids (payload m)
               = (if List.map_filter attachable_id (label_objs m) \<noteq> []
                  then Some (List.map_filter attachable_id (label_objs m)) else None)
         \<and> (\<exists>labels. parse_labels (Some (or_empty (py_or (r ''Labels'') (r ''labels''))))
                        (label_sep a) = Inr labels
                      \<and> length (label_objs m) = length labels)
         \<and> (dry_run a \<or> offline a \<longrightarrow>
               process_row api a i r s
                 = (None, s1\<lparr>created_count := created_count s1 + 1,
                             out := out s1 @ [DryRow i (payload m)]\<rparr>))
         \<and> (\<not> (dry_run a \<or> offline a) \<longrightarrow>
               trace (net (snd (process_row api a i r s)))
                 = trace (net s1) @ [PostIssue (payload m)])"
      by blast
  qed
  show "no_create_labels a \<or> dry_run a \<or> offline a
    \<longrightarrow> (\<exists>label_ids objs s'.
           resolve_labels api a lbls acc_ids acc_objs s = (Inr (label_ids, objs), s') \<and> net s' = net s)"
    using resolve_labels_no_request [of a api lbls acc_ids acc_objs s] by blast
  show "py_strip (or_empty (r ''Summary'')) \<noteq> [] \<and> label_sep a \<noteq> []
      \<and> (no_create_labels a \<or> dry_run a \<or> offline a)
      \<and> (no_create_states a \<or> dry_run a \<or> offline a
           \<or> \<not> truthy (map_state (or_empty (py_or (r ''Status'') (r ''status''))))
           \<or> dict_get (state_cache s)
                (py_lower (py_strip (or_empty
                   (map_state (or_empty (py_or (r ''Status'') (r ''status''))))))) \<noteq> None)
    \<longrightarrow> (\<exists>m' s'. map_row api a (py_strip (or_empty (r ''Summary''))) r s = (Inr m', s')
                  \<and> net s' = net s)
         \<and> fst (process_row api a i r s) = None"
  proof
    assume h: "py_strip (or_empty (r ''Summary'')) \<noteq> [] \<and> label_sep a \<noteq> []
      \<and> (no_create_labels a \<or> dry_run a \<or> offline a)
      \<and> (no_create_states a \<or> dry_run a \<or> offline a
           \<or> \<not> truthy (map_state (or_empty (py_or (r ''Status'') (r ''status''))))
           \<or> dict_get (state_cache s)
                (py_lower (py_strip (or_empty
                   (map_state (or_empty (py_or (r ''Status'') (r ''status''))))))) \<noteq> None)"
    then have n: "py_strip (or_empty (r ''Summary'')) \<noteq> []" and sep: "label_sep a \<noteq> []"
      and cl: "no_create_labels a \<or> dry_run a \<or> offline a"
      and cs: "no_create_states a \<or> dry_run a \<or> offline a
           \<or> \<not> truthy (map_state (or_empty (py_or (r ''Status'') (r ''status''))))
           \<or> dict_get (state_cache s)
                (py_lower (py_strip (or_empty
                   (map_state (or_empty (py_or (r ''Status'') (r ''status''))))))) \<noteq> None"
      by blast+
    from map_row_no_request [OF sep cl cs, of api "py_strip (or_empty (r ''Summary''))"]
    obtain m' s' where mr: "map_row api a (py_strip (or_empty (r ''Summary''))) r s = (Inr m', s')"
      and ns: "net s' = net s" by blast
    from process_row_mapped(1) [OF n mr] mr ns
    show "(\<exists>m' s'. map_row api a (py_strip (or_empty (r ''Summary''))) r s = (Inr m', s')
                  \<and> net s' = net s)
         \<and> fst (process_row api a i r s) = None"
      by blast
  qed
  show "\<not> no_create_labels a \<and> \<not> (dry_run a \<or> offline a)
      \<and> dict_get (label_cache s) (py_lower (py_strip lbl)) = None
      \<and> ensure_label api lbl (net s) = (Inr created, n1)
      \<and> list_labels api n1 = (Inr fresh, n2)
    \<longrightarrow> resolve_labels api a (lbl # lbls) acc_ids acc_objs s
          = resolve_labels api a lbls
              (case attachable_id (Some created) of Some i \<Rightarrow> acc_ids @ [i] | None \<Rightarrow> acc_ids)
              (acc_objs @ [Some created]) (s\<lparr>net := n2, label_cache := fresh\<rparr>)"
    using resolve_label_live(3) [of a s lbl api created n1 fresh n2] by auto
  show "\<not> no_create_labels a \<and> \<not> (dry_run a \<or> offline a)
      \<and> dict_get (label_cache s) (py_lower (py_strip lbl)) = None
      \<and> ensure_label api lbl (net s) = (Inl err, n1)
    \<longrightarrow> resolve_labels api a (lbl # lbls) acc_ids acc_objs s = (Inl err, s\<lparr>net := n1\<rparr>)"
    using resolve_label_live(1) [of a s lbl api err n1] by auto
qed

theorem payload_fields_and_unresolved_tags_witness:
  "py_strip (or_empty ([''Summary'' \<mapsto> ''Fix login'', ''Description'' \<mapsto> ''Cannot log in'',
            ''Status'' \<mapsto> ''In Progress'', ''Priority'' \<mapsto> ''High'',
            ''Labels'' \<mapsto> ''auth;urgent''] ''Summary'')) \<noteq> []
   \<and> or_empty ([''Summary'' \<mapsto> ''Fix login'', ''Description'' \<mapsto> ''Cannot log in'',
            ''Status'' \<mapsto> ''In Progress'', ''Priority'' \<mapsto> ''High'',
            ''Labels'' \<mapsto> ''auth;urgent''] ''Description'') \<noteq> []
   \<and> map_priority (or_empty (py_or
         ([''Summary'' \<mapsto> ''Fix login'', ''Description'' \<mapsto> ''Cannot log in'',
            ''Status'' \<mapsto> ''In Progress'', ''Priority'' \<mapsto> ''High'',
            ''Labels'' \<mapsto> ''auth;urgent''] ''Priority'')
         ([''Summary'' \<mapsto> ''Fix login'', ''Description'' \<mapsto> ''Cannot log in'',
            ''Status'' \<mapsto> ''In Progress'', ''Priority'' \<mapsto> ''High'',
            ''Labels'' \<mapsto> ''auth;urgent''] ''priority''))) \<noteq> None
   \<and> (\<exists>e. Some e \<in> set [Some \<lparr>ent_name = Some ''Auth'', ent_id = Some ''l-1''\<rparr>, None]
            \<and> ent_id e \<noteq> None)
   \<and> List.map_filter attachable_id
         [Some \<lparr>ent_name = Some ''Auth'', ent_id = Some ''l-1''\<rparr>, None] = [''l-1'']
   \<and> trace (net (snd (process_row (mock_api (\<lambda>w. ''s-1'') (\<lambda>p. True) (\<lambda>p. True))
         \<lparr>label_sep = '';'', dry_run = False, offline = False,
          no_create_labels = True, no_create_states = False\<rparr> 1
         [''Summary'' \<mapsto> ''Fix login'', ''Description'' \<mapsto> ''Cannot log in'',
          ''Status'' \<mapsto> ''In Progress'', ''Priority'' \<mapsto> ''High'',
          ''Labels'' \<mapsto> ''auth;urgent'']
         \<lparr>net = \<lparr>world = \<lparr>mock_labels = [\<lparr>ent_name = Some ''Auth'', ent_id = Some ''l-1''\<rparr>],
                               mock_states = []\<rparr>, trace = []\<rparr>,
          label_cache = [(''auth'', \<lparr>ent_name = Some ''Auth'', ent_id = Some ''l-1''\<rparr>)],
          state_cache = [],
          created_count = 0, skipped = 0, failures = 0, out = []\<rparr>)))
       = [GetStates,
          PostState \<lparr>sp_name = ''Started'', sp_color = ''#9ca3af'', sp_group = None\<rparr>,
          GetStates,
          PostIssue \<lparr>ip_name = ''Fix login'', ip_description = Some ''Cannot log in'',
               ip_priority = Some ''high'', ip_state_id = Some ''s-1'',
               ip_label_ids = Some [''l-1'']\<rparr>]
   \<and> (\<exists>label_ids objs s'.
         resolve_labels (mock_api (\<lambda>w. ''s-1'') (\<lambda>p. True) (\<lambda>p. True))
           \<lparr>label_sep = '';'', dry_run = False, offline = False,
            no_create_labels = True, no_create_states = False\<rparr>
           [''auth'', ''urgent''] [] []
           \<lparr>net = \<lparr>world = \<lparr>mock_labels = [\<lparr>ent_name = Some ''Auth'', ent_id = Some ''l-1''\<rparr>],
                                 mock_states = []\<rparr>, trace = []\<rparr>,
            label_cache = [(''auth'', \<lparr>ent_name = Some ''Auth'', ent_id = Some ''l-1''\<rparr>)],
            state_cache = [],
            created_count = 0, skipped = 0, failures = 0, out = []\<rparr>
           = (Inr (label_ids, objs), s')
         \<and> net s' = \<lparr>world = \<lparr>mock_labels = [\<lparr>ent_name = Some ''Auth'', ent_id = Some ''l-1''\<rparr>],
                                mock_states = []\<rparr>, trace = []\<rparr>)
   \<and> fst (process_row (mock_api (\<lambda>w. ''s-1'') (\<lambda>p. True) (\<lambda>p. True))
         \<lparr>label_sep = '';'', dry_run = False, offline = False,
          no_create_labels = True, no_create_states = True\<rparr> 1
         [''Summary'' \<mapsto> ''Fix login'', ''Description'' \<mapsto> ''Cannot log in'',
          ''Status'' \<mapsto> ''In Progress'', ''Priority'' \<mapsto> ''High'',
          ''Labels'' \<mapsto> ''auth;urgent'']
         \<lparr>net = \<lparr>world = \<lparr>mock_labels = [\<lparr>ent_name = Some ''Auth'', ent_id = Some ''l-1''\<rparr>],
                               mock_states = []\<rparr>, trace = []\<rparr>,
          label_cache = [(''auth'', \<lparr>ent_name = Some ''Auth'', ent_id = Some ''l-1''\<rparr>)],
          state_cache = [],
          created_count = 0, skipped = 0, failures = 0, out = []\<rparr>) = None
   \<and> resolve_labels (mock_api (\<lambda>w. ''l-9'') (\<lambda>p. True) (\<lambda>p. True))
         \<lparr>label_sep = '';'', dry_run = False, offline = False,
          no_create_labels = False, no_create_states = False\<rparr>
         [''auth''] [] []
         \<lparr>net = \<lparr>world = \<lparr>mock_labels = [], mock_states = []\<rparr>, trace = []\<rparr>,
          label_cache = [], state_cache = [],
          created_count = 0, skipped = 0, failures = 0, out = []\<rparr>
       = (Inr ([''l-9''], [Some \<lparr>ent_name = Some ''auth'', ent_id = Some ''l-9''\<rparr>]),
          \<lparr>net = \<lparr>world = \<lparr>mock_labels = [\<lparr>ent_name = Some ''auth'', ent_id = Some ''l-9''\<rparr>],
                               mock_states = []\<rparr>,
                   trace = [GetLabels, PostLabel \<lparr>lp_name = ''auth''\<rparr>, GetLabels]\<rparr>,
           label_cache = [(''auth'', \<lparr>ent_name = Some ''auth'', ent_id = Some ''l-9''\<rparr>)],
           state_cache = [],
           created_count = 0, skipped = 0, failures = 0, out = []\<rparr>)
   \<and> resolve_labels (mock_api (\<lambda>w. ''l-9'') (\<lambda>p. False) (\<lambda>p. True))
         \<lparr>label_sep = '';'', dry_run = False, offline = False,
          no_create_labels = False, no_create_states = False\<rparr>
         [''auth'', ''urgent''] [] []
         \<lparr>net = \<lparr>world = \<lparr>mock_labels = [], mock_states = []\<rparr>, trace = []\<rparr>,
          label_cache = [], state_cache = [],
          created_count = 0, skipped = 0, failures = 0, out = []\<rparr>
       = (Inl (RuntimeError ''POST labels -> 400''),
          \<lparr>net = \<lparr>world = \<lparr>mock_labels = [], mock_states = []\<rparr>,
                   trace = [GetLabels, PostLabel \<lparr>lp_name = ''auth''\<rparr>]\<rparr>,
           label_cache = [], state_cache = [],
           created_count = 0, skipped = 0, failures = 0, out = []\<rparr>)"
proof -
  let ?r = "[''Summary'' \<mapsto> ''Fix login'', ''Description'' \<mapsto> ''Cannot log in'',
            ''Status'' \<mapsto> ''In Progress'', ''Priority'' \<mapsto> ''High'',
            ''Labels'' \<mapsto> ''auth;urgent'']"
  let ?a1 = "\<lparr>label_sep = '';'', dry_run = False, offline = False,
          no_create_labels = True, no_create_states = False\<rparr>"
  let ?a2 = "\<lparr>label_sep = '';'', dry_run = False, offline = False,
          no_create_labels = True, no_create_states = True\<rparr>"
  let ?a3 = "\<lparr>label_sep = '';'', dry_run = False, offline = False,
          no_create_labels = False, no_create_states = False\<rparr>"
  let ?M = "mock_api (\<lambda>w. ''s-1'') (\<lambda>p. True) (\<lambda>p. True)"
  let ?M9 = "mock_api (\<lambda>w. ''l-9'') (\<lambda>p. True) (\<lambda>p. True)"
  let ?R9 = "mock_api (\<lambda>w. ''l-9'') (\<lambda>p. False) (\<lambda>p. True)"
  let ?s = "\<lparr>net = \<lparr>world = \<lparr>mock_labels = [\<lparr>ent_name = Some ''Auth'', ent_id = Some ''l-1''\<rparr>],
                               mock_states = []\<rparr>, trace = []\<rparr>,
          label_cache = [(''auth'', \<lparr>ent_name = Some ''Auth'', ent_id = Some ''l-1''\<rparr>)],
          state_cache = [],
          created_count = 0, skipped = 0, failures = 0, out = []\<rparr>"
  let ?empty = "\<lparr>net = \<lparr>world = \<lparr>mock_labels = [], mock_states = []\<rparr>, trace = []\<rparr>,
          label_cache = [], state_cache = [],
          created_count = 0, skipped = 0, failures = 0, out = []\<rparr>"
  let ?e9 = "\<lparr>ent_name = Some ''auth'', ent_id = Some ''l-9''\<rparr>"
  have n: "py_strip (or_empty (?r ''Summary'')) \<noteq> []"
    by (simp add: py_strip_def py_isspace_def or_empty_def)
  have d: "ip_description \<lparr>ip_name = ''Fix login'', ip_description = Some ''Cannot log in'',
               ip_priority = Some ''high'', ip_state_id = Some ''s-1'',
               ip_label_ids = Some [''l-1'']\<rparr> \<noteq> None" by simp
  have mf: "List.map_filter attachable_id
         [Some \<lparr>ent_name = Some ''Auth'', ent_id = Some ''l-1''\<rparr>, None] = [''l-1'']"
    by (simp add: attachable_id_def truthy_def)
  note t1 = payload_fields_and_unresolved_tags [where r = ?r and a = ?a1 and api = ?M
      and s = ?s and i = 1 and lbls = "[''auth'', ''urgent'']" and acc_ids = "[]" and acc_objs = "[]"]
  from t1 n map_row_example d mf
  have p1: "or_empty (?r ''Description'') \<noteq> []
     \<and> map_priority (or_empty (py_or (?r ''Priority'') (?r ''priority''))) \<noteq> None
     \<and> (\<exists>e. Some e \<in> set [Some \<lparr>ent_name = Some ''Auth'', ent_id = Some ''l-1''\<rparr>, None]
            \<and> ent_id e \<noteq> None)
     \<and> trace (net (snd (process_row ?M ?a1 1 ?r ?s)))
       = [GetStates,
          PostState \<lparr>sp_name = ''Started'', sp_color = ''#9ca3af'', sp_group = None\<rparr>,
          GetStates,
          PostIssue \<lparr>ip_name = ''Fix login'', ip_description = Some ''Cannot log in'',
               ip_priority = Some ''high'', ip_state_id = Some ''s-1'',
               ip_label_ids = Some [''l-1'']\<rparr>]"
    by simp
  have "no_create_labels ?a1 \<or> dry_run ?a1 \<or> offline ?a1" by simp
  with t1 have p2: "\<exists>label_ids objs s'.
         resolve_labels ?M ?a1 [''auth'', ''urgent''] [] [] ?s = (Inr (label_ids, objs), s')
         \<and> net s' = net ?s"
    by blast
  have c2: "py_strip (or_empty (?r ''Summary'')) \<noteq> [] \<and> label_sep ?a2 \<noteq> []
      \<and> (no_create_labels ?a2 \<or> dry_run ?a2 \<or> offline ?a2)
      \<and> (no_create_states ?a2 \<or> dry_run ?a2 \<or> offline ?a2
           \<or> \<not> truthy (map_state (or_empty (py_or (?r ''Status'') (?r ''status''))))
           \<or> dict_get (state_cache ?s)
                (py_lower (py_strip (or_empty
                   (map_state (or_empty (py_or (?r ''Status'') (?r ''status''))))))) \<noteq> None)"
    using n by simp
  from payload_fields_and_unresolved_tags [where r = ?r and a = ?a2 and api = ?M
      and s = ?s and i = 1] c2
  have p3: "fst (process_row ?M ?a2 1 ?r ?s) = None" by blast
  have k: "py_lower (py_strip ''auth'') = ''auth''" by code_simp
  have nk: "norm_key (Some ''auth'') = ''auth''" by code_simp
  have e3: "ensure_label ?M9 ''auth'' (net ?empty)
      = (Inr ?e9, \<lparr>world = \<lparr>mock_labels = [?e9], mock_states = []\<rparr>,
                   trace = [GetLabels, PostLabel \<lparr>lp_name = ''auth''\<rparr>]\<rparr>)"
    by (simp add: ensure_label_def list_labels_def request_def mock_api_def Let_def
        dict_get_def by_name_def)
  have l3: "list_labels ?M9 \<lparr>world = \<lparr>mock_labels = [?e9], mock_states = []\<rparr>,
                   trace = [GetLabels, PostLabel \<lparr>lp_name = ''auth''\<rparr>]\<rparr>
      = (Inr [(''auth'', ?e9)],
         \<lparr>world = \<lparr>mock_labels = [?e9], mock_states = []\<rparr>,
          trace = [GetLabels, PostLabel \<lparr>lp_name = ''auth''\<rparr>, GetLabels]\<rparr>)"
    by (simp add: list_labels_def request_def mock_api_def by_name_def nk)
  have c3: "\<not> no_create_labels ?a3 \<and> \<not> (dry_run ?a3 \<or> offline ?a3)
      \<and> dict_get (label_cache ?empty) (py_lower (py_strip ''auth'')) = None"
    by (simp add: dict_get_def)
  from payload_fields_and_unresolved_tags [where a = ?a3 and api = ?M9 and s = ?empty
      and lbl = "''auth''" and lbls = "[]" and acc_ids = "[]" and acc_objs = "[]"
      and created = ?e9 and fresh = "[(''auth'', ?e9)]"] c3 e3 l3
  have p4: "resolve_labels ?M9 ?a3 [''auth''] [] [] ?empty
      = resolve_labels ?M9 ?a3 []
          (case attachable_id (Some ?e9) of Some i \<Rightarrow> [] @ [i] | None \<Rightarrow> [])
          ([] @ [Some ?e9])
          (?empty\<lparr>net := \<lparr>world = \<lparr>mock_labels = [?e9], mock_states = []\<rparr>,
                         trace = [GetLabels, PostLabel \<lparr>lp_name = ''auth''\<rparr>, GetLabels]\<rparr>,
                label_cache := [(''auth'', ?e9)]\<rparr>)"
    by blast
  have e4: "ensure_label ?R9 ''auth'' (net ?empty)
      = (Inl (RuntimeError ''POST labels -> 400''),
         \<lparr>world = \<lparr>mock_labels = [], mock_states = []\<rparr>,
          trace = [GetLabels, PostLabel \<lparr>lp_name = ''auth''\<rparr>]\<rparr>)"
    by (simp add: ensure_label_def list_labels_def request_def mock_api_def Let_def
        dict_get_def by_name_def)
  from payload_fields_and_unresolved_tags [where a = ?a3 and api = ?R9 and s = ?empty
      and lbl = "''auth''" and lbls = "[''urgent'']" and acc_ids = "[]" and acc_objs = "[]"] c3 e4
  have p5: "resolve_labels ?R9 ?a3 [''auth'', ''urgent''] [] [] ?empty
      = (Inl (RuntimeError ''POST labels -> 400''),
         ?empty\<lparr>net := \<lparr>world = \<lparr>mock_labels = [], mock_states = []\<rparr>,
                        trace = [GetLabels, PostLabel \<lparr>lp_name = ''auth''\<rparr>]\<rparr>\<rparr>)"
    by blast
  from n mf p1 p2 p3 p4 p5 show ?thesis
    by (simp add: attachable_id_def truthy_def)
qed

text \<open>
  The claim C6 as stated fails: in a live run against a service that refuses new labels, the
  tag \<open>auth\<close> of the first row is not dropped; its failed creation ends the run, no issue
  is posted and the second row is never processed.
\<close>

theorem label_creation_failure_blocks_row:
  "main (mock_api (\<lambda>w. ''l-1'') (\<lambda>p. False) (\<lambda>p. True))
         \<lparr>label_sep = '';'', dry_run = False, offline = False,
          no_create_labels = False, no_create_states = False\<rparr>
         (Some [''Summary'', ''Labels''])
         [[''Summary'' \<mapsto> ''Fix login'', ''Labels'' \<mapsto> ''auth''],
          [''Summary'' \<mapsto> ''Add logout'']]
         \<lparr>mock_labels = [], mock_states = []\<rparr>
     = (Some (RuntimeError ''POST labels -> 400''),
        \<lparr>net =
           \<lparr>world = \<lparr>mock_labels = [], mock_states = []\<rparr>,
            trace = [GetLabels, GetStates, GetLabels, PostLabel \<lparr>lp_name = ''auth''\<rparr>]\<rparr>,
         label_cache = [], state_cache = [], created_count = 0, skipped = 0,
         failures = 0, out = [WarnProjectResolution UnboundLocalError]\<rparr>)"
  by code_simp

section \<open>Failures while a row is processed\<close>

lemma resolve_state_frame:
  "resolve_state api a t s = (res, s') \<Longrightarrow>
     created_count s' = created_count s \<and> skipped s' = skipped s \<and> failures s' = failures s
     \<and> (\<not> (dry_run a \<or> offline a) \<longrightarrow> out s' = out s)"
  by (auto simp: resolve_state_def Let_def split: if_splits prod.splits sum.splits)

lemma resolve_label_frame:
  "resolve_label api a t s = (res, s') \<Longrightarrow>
     created_count s' = created_count s \<and> skipped s' = skipped s \<and> failures s' = failures s
     \<and> (\<not> (dry_run a \<or> offline a) \<longrightarrow> out s' = out s)"
  by (auto simp: resolve_label_def Let_def split: if_splits prod.splits sum.splits)

lemma resolve_labels_frame:
  "resolve_labels api a lbls ids0 objs0 s = (res, s') \<Longrightarrow>
     created_count s' = created_count s \<and> skipped s' = skipped s \<and> failures s' = failures s
     \<and> (\<not> (dry_run a \<or> offline a) \<longrightarrow> out s' = out s)"
proof (induction lbls arbitrary: ids0 objs0 s)
  case Nil
  then show ?case by simp
next
  case (Cons lbl lbls)
  obtain r1 s1 where r: "resolve_label api a lbl s = (r1, s1)" by (cases "resolve_label api a lbl s")
  note f = resolve_label_frame [OF r]
  show ?case
  proof (cases r1)
    case (Inl e)
    with r Cons.prems f show ?thesis by simp
  next
    case (Inr obj)
    with r Cons.prems
    have "resolve_labels api a lbls
            (case attachable_id obj of Some i \<Rightarrow> ids0 @ [i] | None \<Rightarrow> ids0)
            (objs0 @ [obj]) s1 = (res, s')" by simp
    from Cons.IH [OF this] f show ?thesis by simp
  qed
qed

lemma map_row_frame:
  assumes "map_row api a name r s = (res, s')"
  shows "created_count s' = created_count s \<and> skipped s' = skipped s \<and> failures s' = failures s
         \<and> (\<not> (dry_run a \<or> offline a) \<longrightarrow> out s' = out s)"
proof (cases "parse_labels (Some (or_empty (py_or (r ''Labels'') (r ''labels'')))) (label_sep a)")
  case (Inl e)
  with assms show ?thesis by (simp add: map_row_def Let_def)
next
  case (Inr labels)
  let ?target = "map_state (or_empty (py_or (r ''Status'') (r ''status'')))"
  let ?step = "if truthy ?target then resolve_state api a (or_empty ?target) s else (Inr None, s)"
  obtain r1 s1 where st: "?step = (r1, s1)" by (cases ?step)
  have f1: "created_count s1 = created_count s \<and> skipped s1 = skipped s \<and> failures s1 = failures s
         \<and> (\<not> (dry_run a \<or> offline a) \<longrightarrow> out s1 = out s)"
  proof (cases "truthy ?target")
    case True
    with st have "resolve_state api a (or_empty ?target) s = (r1, s1)" by simp
    from resolve_state_frame [OF this] show ?thesis .
  next
    case False
    with st show ?thesis by simp
  qed
  show ?thesis
  proof (cases r1)
    case (Inl e)
    with assms Inr st f1 show ?thesis by (simp add: map_row_def Let_def)
  next
    case sobj: (Inr sobj)
    obtain r2 s2 where rl: "resolve_labels api a labels [] [] s1 = (r2, s2)"
      by (cases "resolve_labels api a labels [] [] s1")
    note f2 = resolve_labels_frame [OF rl]
    from assms Inr st sobj rl have "s' = s2"
      by (cases r2) (auto simp: map_row_def Let_def split: prod.splits)
    with f1 f2 show ?thesis by simp
  qed
qed

text \<open>
  C2, as the code has it. In a live run, for every row with a name: a failure of the
  record-creation call never aborts the run; it is printed with the row's ordinal position
  and its cause, the failure counter is incremented, the other counters are unchanged, and
  the run goes on with the next row. A failure raised while the row is mapped, that is a
  failed creation or listing of a label or state, is not caught: the run ends at that row
  with that failure, nothing is printed for it and no counter changes.
\<close>

theorem row_failure_handling:
  assumes n: "py_strip (or_empty (r ''Summary'')) \<noteq> []"
    and live: "\<not> (dry_run a \<or> offline a)"
  shows "(map_row api a (py_strip (or_empty (r ''Summary''))) r s = (Inr m, s1)
            \<and> create_issue_endpoint api (payload m) (world (net s1)) = (Inl e, w')
          \<longrightarrow> run_rows api a i (r # rows) s
                = run_rows api a (Suc i) rows
                    (s1\<lparr>net := \<lparr>world = w', trace = trace (net s1) @ [PostIssue (payload m)]\<rparr>,
                        failures := failures s + 1,
                        out := out s @ [FailRow i e]\<rparr>)
              \<and> created_count s1 = created_count s \<and> skipped s1 = skipped s)
         \<and> (map_row api a (py_strip (or_empty (r ''Summary''))) r s = (Inl e, s1)
          \<longrightarrow> run_rows api a i (r # rows) s = (Some e, s1)
              \<and> created_count s1 = created_count s \<and> skipped s1 = skipped s
              \<and> failures s1 = failures s \<and> out s1 = out s)"
proof (intro conjI impI)
  assume h: "map_row api a (py_strip (or_empty (r ''Summary''))) r s = (Inr m, s1)
            \<and> create_issue_endpoint api (payload m) (world (net s1)) = (Inl e, w')"
  note f = map_row_frame [OF conjunct1 [OF h]]
  from n live h f
  show "run_rows api a i (r # rows) s
          = run_rows api a (Suc i) rows
              (s1\<lparr>net := \<lparr>world = w', trace = trace (net s1) @ [PostIssue (payload m)]\<rparr>,
                  failures := failures s + 1,
                  out := out s @ [FailRow i e]\<rparr>)"
    by (simp add: process_row_def create_issue_def request_def)
  from f show "created_count s1 = created_count s" and "skipped s1 = skipped s" by simp_all
next
  assume h: "map_row api a (py_strip (or_empty (r ''Summary''))) r s = (Inl e, s1)"
  note f = map_row_frame [OF h]
  from n h show "run_rows api a i (r # rows) s = (Some e, s1)"
    by (simp add: process_row_def)
  from f live show "created_count s1 = created_count s" and "skipped s1 = skipped s"
    and "failures s1 = failures s" and "out s1 = out s" by simp_all
qed

theorem row_failure_handling_witness:
  "py_strip (or_empty ([''Summary'' \<mapsto> ''Fix login''] ''Summary'')) \<noteq> []
   \<and> run_rows unreachable_api
         \<lparr>label_sep = '';'', dry_run = False, offline = False,
          no_create_labels = False, no_create_states = False\<rparr> 1
         [[''Summary'' \<mapsto> ''Fix login'']]
         \<lparr>net = \<lparr>world = (), trace = []\<rparr>, label_cache = [], state_cache = [],
          created_count = 0, skipped = 0, failures = 0, out = []\<rparr>
       = (None,
          \<lparr>net = \<lparr>world = (),
                   trace = [PostIssue \<lparr>ip_name = ''Fix login'', ip_description = None,
                              ip_priority = None, ip_state_id = None, ip_label_ids = None\<rparr>]\<rparr>,
           label_cache = [], state_cache = [],
           created_count = 0, skipped = 0, failures = 1,
           out = [FailRow 1 (RuntimeError ''POST issues -> 503'')]\<rparr>)
   \<and> run_rows unreachable_api
         \<lparr>label_sep = '';'', dry_run = False, offline = False,
          no_create_labels = False, no_create_states = False\<rparr> 1
         [[''Summary'' \<mapsto> ''Fix login'', ''Status'' \<mapsto> ''Done''], [''Summary'' \<mapsto> ''Fix login'']]
         \<lparr>net = \<lparr>world = (), trace = []\<rparr>, label_cache = [], state_cache = [],
          created_count = 0, skipped = 0, failures = 0, out = []\<rparr>
       = (Some (RuntimeError ''GET states -> 503''),
          \<lparr>net = \<lparr>world = (), trace = [GetStates]\<rparr>, label_cache = [], state_cache = [],
           created_count = 0, skipped = 0, failures = 0, out = []\<rparr>)"
proof -
  let ?a = "\<lparr>label_sep = '';'', dry_run = False, offline = False,
          no_create_labels = False, no_create_states = False\<rparr>"
  let ?s = "\<lparr>net = \<lparr>world = (), trace = []\<rparr>, label_cache = [], state_cache = [],
          created_count = 0, skipped = 0, failures = 0, out = []\<rparr>"
  let ?r1 = "[''Summary'' \<mapsto> ''Fix login'']"
  let ?r2 = "[''Summary'' \<mapsto> ''Fix login'', ''Status'' \<mapsto> ''Done'']"
  let ?p = "\<lparr>ip_name = ''Fix login'', ip_description = None,
             ip_priority = None, ip_state_id = None, ip_label_ids = None\<rparr>"
  have n1: "py_strip (or_empty (?r1 ''Summary'')) \<noteq> []"
    by (simp add: py_strip_def py_isspace_def or_empty_def)
  have n2: "py_strip (or_empty (?r2 ''Summary'')) \<noteq> []"
    by (simp add: py_strip_def py_isspace_def or_empty_def)
  have live: "\<not> (dry_run ?a \<or> offline ?a)" by simp
  have m1: "map_row unreachable_api ?a (py_strip (or_empty (?r1 ''Summary''))) ?r1 ?s
              = (Inr \<lparr>payload = ?p, state_obj = None, label_objs = []\<rparr>, ?s)"
    by code_simp
  have c1: "create_issue_endpoint unreachable_api
              (payload \<lparr>payload = ?p, state_obj = None, label_objs = []\<rparr>) (world (net ?s))
              = (Inl (RuntimeError ''POST issues -> 503''), ())"
    by (simp add: unreachable_api_def)
  have m2: "map_row unreachable_api ?a (py_strip (or_empty (?r2 ''Summary''))) ?r2 ?s
              = (Inl (RuntimeError ''GET states -> 503''), ?s\<lparr>net := \<lparr>world = (), trace = [GetStates]\<rparr>\<rparr>)"
    by code_simp
  from row_failure_handling [where r = ?r1 and a = ?a and api = unreachable_api and s = ?s
      and i = 1 and rows = "[]", OF n1 live] m1 c1
  have a: "run_rows unreachable_api ?a 1 [?r1] ?s
             = run_rows unreachable_api ?a (Suc 1) []
                 (?s\<lparr>net := \<lparr>world = (), trace = trace (net ?s) @ [PostIssue ?p]\<rparr>,
                     failures := failures ?s + 1,
                     out := out ?s @ [FailRow 1 (RuntimeError ''POST issues -> 503'')]\<rparr>)"
    by (metis mapped_row.select_convs(1))
  from row_failure_handling [where r = ?r2 and a = ?a and api = unreachable_api and s = ?s
      and i = 1 and rows = "[?r1]", OF n2 live] m2
  have b: "run_rows unreachable_api ?a 1 [?r2, ?r1] ?s
             = (Some (RuntimeError ''GET states -> 503''),
                ?s\<lparr>net := \<lparr>world = (), trace = [GetStates]\<rparr>\<rparr>)"
    by blast
  from n1 a b show ?thesis by simp
qed

text \<open>
  The claim C2 as stated fails: when the service refuses the state \<open>Completed\<close> of the
  first row, the run ends with that failure; the failure counter is still 0, no failure
  line is printed and the second row is never processed.
\<close>

theorem state_creation_failure_aborts_run:
  "main (mock_api (\<lambda>w. ''s-1'') (\<lambda>p. True) (\<lambda>p. False))
         \<lparr>label_sep = '';'', dry_run = False, offline = False,
          no_create_labels = False, no_create_states = False\<rparr>
         (Some [''Summary'', ''Status''])
         [[''Summary'' \<mapsto> ''Fix login'', ''Status'' \<mapsto> ''Done''],
          [''Summary'' \<mapsto> ''Add logout'']]
         \<lparr>mock_labels = [], mock_states = []\<rparr>
     = (Some (RuntimeError ''POST states -> 400''),
        \<lparr>net =
           \<lparr>world = \<lparr>mock_labels = [], mock_states = []\<rparr>,
            trace =
              [GetLabels, GetStates, GetStates,
               PostState \<lparr>sp_name = ''Completed'', sp_color = ''#9ca3af'', sp_group = None\<rparr>,
               PostState \<lparr>sp_name = ''Completed'', sp_color = ''#9ca3af'',
                          sp_group = Some ''completed''\<rparr>]\<rparr>,
         label_cache = [], state_cache = [], created_count = 0, skipped = 0,
         failures = 0, out = [WarnProjectResolution UnboundLocalError]\<rparr>)"
  by code_simp

end
